theory Spec2Isabelle
  imports Main
begin

section \<open>The polling state machine of the provisioning device client\<close>

text \<open>
  This theory embeds \<^verbatim>\<open>provisioning/device/src/polling_state_machine.ts\<close>: the class
  \<^verbatim>\<open>PollingStateMachine\<close>, a machina finite state machine that sends a registration
  request, polls for the operation status and tears the session down.

  The way the program is read:
  \<^item> Caller-supplied functions (the callbacks of \<^verbatim>\<open>register\<close> and \<^verbatim>\<open>endSession\<close>) are
    compared by identity in the source (\<^verbatim>\<open>===\<close>); a callback is modelled by its identity.
  \<^item> Everything the machine does to its surroundings (invoking a callback, emitting
    \<^verbatim>\<open>operationStatus\<close>, calling the transport, starting or clearing a timer) is recorded,
    in order, in a list of actions. An action that hands a closure to the transport or to
    the scheduler records the variables the closure captures.
  \<^item> What the surroundings do to the machine is an event: a call of the public API, the
    completion of a transport call (the closure runs, with the variables it captured), a
    timer that fires.
  \<^item> A callback or a listener that the machine calls may call the machine back before it
    returns. What it does is given from outside, as the list of events that happen
    during the call; they run nested inside the handler that made the call, before the
    statements that follow it.
  \<^item> The transport and the scheduler run the closures they are given later, never inside
    the call that receives them.
  \<^item> The library machina is not part of the repository. Its \<^verbatim>\<open>handle\<close>, \<^verbatim>\<open>transition\<close>,
    \<^verbatim>\<open>deferUntilTransition\<close> and \<^verbatim>\<open>processQueue\<close> are modelled as far as this
    configuration uses them.
  \<^item> \<^verbatim>\<open>null\<close> and \<^verbatim>\<open>undefined\<close> are both \<open>None\<close>.
  \<^item> Nothing in the source catches an exception: one that is thrown ends the event.
\<close>

subsection \<open>Data\<close>

type_synonym callback = nat
type_synonym request = nat
type_synonym requestBody = nat
type_synonym result = nat
type_synonym pollingInterval = nat

text \<open>The response body: the fields the machine reads, and the rest of the object.\<close>

record body =
  status :: "string option"
  operationId :: "string option"
  payload :: nat

text \<open>
  The errors the machine creates (\<^verbatim>\<open>errors.*\<close> of azure-iot-common and the built-in
  \<^verbatim>\<open>SyntaxError\<close>), with their message; the two errors of the response classification get
  the fields \<^verbatim>\<open>result\<close> and \<^verbatim>\<open>body\<close> assigned. \<open>TransportError\<close> is an error object that
  the transport made.
\<close>

datatype error =
    InvalidOperationError string
  | DeviceRegistrationFailedError string "result option" body
  | SyntaxError string "result option" body
  | OperationCancelledError string
  | TransportError nat

datatype exn = TypeError

text \<open>The nine states of the machina configuration.\<close>

datatype state =
    Disconnected
  | Idle
  | SendingRegistrationRequest
  | ResponseReceived
  | ResponseComplete
  | ResponseError
  | WaitingToPoll
  | Polling
  | EndingSession

text \<open>
  The inputs given to \<^verbatim>\<open>this._fsm.handle\<close>, with their arguments:
  \<^verbatim>\<open>handle('register', request, requestBody, callback)\<close> and
  \<^verbatim>\<open>handle('endSession', null, null, null, callback)\<close>.
\<close>

datatype input =
    Register request requestBody callback
  | EndSession "error option" "body option" "result option" callback

text \<open>
  The timer handle kept in \<^verbatim>\<open>_pollingTimer\<close> stands for the closure given to
  \<^verbatim>\<open>setTimeout\<close>: the request, operation id, polling interval and callback it captured.
\<close>

type_synonym timer = "request \<times> string option \<times> pollingInterval \<times> callback"

datatype action =
    CallCallback callback "error option" "body option" "result option"
  | Emit_operationStatus body
  | Transport_registrationRequest request requestBody callback
  | Transport_queryOperationStatus request "string option" callback
  | Transport_endSession "error option" "body option" "result option" callback
  | SetTimeout timer pollingInterval
  | ClearTimeout "timer option"

text \<open>
  The fields of the object: the two private fields of the class that change, and the
  part of machina's bookkeeping that the configuration can observe (the current state, the
  state whose entry may replay the queue, and the queue of deferred inputs). No state has
  an \<^verbatim>\<open>_onExit\<close> handler, so machina's \<^verbatim>\<open>inExitHandler\<close> flag is never set.
\<close>

record machine =
  fsm_state :: state
  targetReplayState :: state
  inputQueue :: "input list"
  currentOperationCallback :: "callback option"
  pollingTimer :: "timer option"

text \<open>
  The arguments of a transition: the target state and what its \<^verbatim>\<open>_onEnter\<close> receives.
\<close>

datatype enter =
    Enter_disconnected "error option" "body option" "result option" "callback option"
  | Enter_idle "error option" "body option" "result option" callback
  | Enter_sendingRegistrationRequest request requestBody callback
  | Enter_responseReceived "error option" request "body option" "result option"
      pollingInterval callback
  | Enter_responseComplete body "result option" callback
  | Enter_responseError "error option" "body option" "result option" callback
  | Enter_waitingToPoll request "string option" pollingInterval callback
  | Enter_polling request "string option" pollingInterval callback
  | Enter_endingSession "error option" "body option" "result option" callback

fun target :: "enter \<Rightarrow> state" where
  "target (Enter_disconnected err body result callback) = Disconnected"
| "target (Enter_idle err body result callback) = Idle"
| "target (Enter_sendingRegistrationRequest request requestBody callback) =
     SendingRegistrationRequest"
| "target (Enter_responseReceived err request body result pollingInterval callback) =
     ResponseReceived"
| "target (Enter_responseComplete body result callback) = ResponseComplete"
| "target (Enter_responseError err body result callback) = ResponseError"
| "target (Enter_waitingToPoll request opId pollingInterval callback) = WaitingToPoll"
| "target (Enter_polling request opId pollingInterval callback) = Polling"
| "target (Enter_endingSession err body result callback) = EndingSession"

text \<open>
  The public methods \<^verbatim>\<open>register\<close> and \<^verbatim>\<open>endSession\<close>, and the four closures the machine
  hands out: the completion of \<^verbatim>\<open>registrationRequest\<close> (in \<^verbatim>\<open>sendingRegistrationRequest\<close>),
  the completion of \<^verbatim>\<open>queryOperationStatus\<close> (in \<^verbatim>\<open>polling\<close>), the timer function (in
  \<^verbatim>\<open>waitingToPoll\<close>) and the completion of the transport's \<^verbatim>\<open>endSession\<close> (in
  \<^verbatim>\<open>endingSession\<close>). A closure's first arguments are the variables it captured.
\<close>

datatype event =
    Call_register request requestBody callback
  | Call_endSession callback
  | Done_registrationRequest request callback "error option" "body option" "result option"
      pollingInterval
  | Done_queryOperationStatus request callback "error option" "body option" "result option"
      pollingInterval
  | Fire_timer timer
  | Done_endSession "error option" "body option" "result option" callback "error option"

text \<open>
  The statements of the handlers, as far as they reach outside the handler's own
  variables and fields: an action on the surroundings, a \<^verbatim>\<open>throw\<close>, a call of machina's
  \<^verbatim>\<open>handle\<close> or \<^verbatim>\<open>transition\<close>, the end of a transition (where machina replays the queue),
  and an event that happens while a callback or a listener runs. A handler is the change
  it makes to the fields and the list of its statements, in order.
\<close>

datatype task =
    Effect action
  | Raise exn
  | Handle input
  | Transition enter
  | ProcessQueue state
  | Run event

type_synonym handler = "machine \<Rightarrow> machine \<times> task list"

text \<open>
  What the callbacks and listeners do: for each call of one of them, in the order of the
  calls, the events that happen before it returns. A call beyond the end of the list
  makes none.
\<close>

type_synonym reactions = "event list list"

text \<open>
  An outcome: the machine afterwards, the actions performed and the exception thrown, if
  any.
\<close>

type_synonym outcome = "machine \<times> action list \<times> exn option"

subsection \<open>Strings\<close>

text \<open>
  \<^verbatim>\<open>String.prototype.toLowerCase\<close> on the letters A to Z. The status is compared with three
  ASCII words, none of which holds a letter that a character outside ASCII lowers to.
\<close>

fun lower_char :: "char \<Rightarrow> char" where
  "lower_char (Char b0 b1 b2 b3 b4 b5 b6 b7) =
     (let n = (of_char (Char b0 b1 b2 b3 b4 b5 b6 b7) :: nat)
      in if 65 \<le> n \<and> n \<le> 90 then Char b0 b1 b2 b3 b4 True b6 b7
         else Char b0 b1 b2 b3 b4 b5 b6 b7)"

definition toLowerCase :: "string \<Rightarrow> string" where
  "toLowerCase s = map lower_char s"

text \<open>\<^verbatim>\<open>a || b\<close> on values that are an object or null.\<close>

definition or_else :: "'a option \<Rightarrow> 'a option \<Rightarrow> 'a option" where
  "or_else a b = (case a of Some x \<Rightarrow> Some x | None \<Rightarrow> b)"

subsection \<open>Entry handlers\<close>

definition disconnected_onEnter ::
  "error option \<Rightarrow> body option \<Rightarrow> result option \<Rightarrow> callback option \<Rightarrow> handler"
where
  "disconnected_onEnter err body result callback m =
     (m\<lparr>currentOperationCallback := None\<rparr>,
      (case callback of
         Some cb \<Rightarrow> [Effect (CallCallback cb err body result)]
       | None \<Rightarrow> []))"

definition idle_onEnter ::
  "error option \<Rightarrow> body option \<Rightarrow> result option \<Rightarrow> callback \<Rightarrow> handler"
where
  "idle_onEnter err body result callback m =
     (m, [Effect (CallCallback callback err body result)])"

definition sendingRegistrationRequest_onEnter ::
  "request \<Rightarrow> requestBody \<Rightarrow> callback \<Rightarrow> handler"
where
  "sendingRegistrationRequest_onEnter request requestBody callback m =
     (m\<lparr>currentOperationCallback := Some callback\<rparr>,
      [Effect (Transport_registrationRequest request requestBody callback)])"

text \<open>
  In \<open>responseReceived_onEnter\<close>, \<^verbatim>\<open>body.status.toLowerCase()\<close> throws a TypeError when the
  body or its status is null or undefined.
\<close>

definition responseReceived_onEnter ::
  "error option \<Rightarrow> request \<Rightarrow> body option \<Rightarrow> result option \<Rightarrow> pollingInterval \<Rightarrow> callback
    \<Rightarrow> handler"
where
  "responseReceived_onEnter err request body result pollingInterval callback m =
     (m,
      if err \<noteq> None then [Transition (Enter_responseError err body result callback)]
      else
        case body of
          None \<Rightarrow> [Raise TypeError]
        | Some b \<Rightarrow>
            (case status b of
               None \<Rightarrow> [Raise TypeError]
             | Some s \<Rightarrow>
                 if toLowerCase s = ''assigned''
                   then [Transition (Enter_responseComplete b result callback)]
                 else if toLowerCase s = ''assigning''
                   then [Effect (Emit_operationStatus b),
                         Transition
                           (Enter_waitingToPoll request (operationId b) pollingInterval
                              callback)]
                 else if toLowerCase s = ''failed''
                   then [Transition
                           (Enter_responseError
                              (Some (DeviceRegistrationFailedError ''registration failed''
                                 result b))
                              body result callback)]
                 else [Transition
                         (Enter_responseError
                            (Some (SyntaxError (''status is '' @ s) result b))
                            body result callback)]))"

definition responseComplete_onEnter :: "body \<Rightarrow> result option \<Rightarrow> callback \<Rightarrow> handler" where
  "responseComplete_onEnter body result callback m =
     (m\<lparr>currentOperationCallback := None\<rparr>,
      [Effect (Emit_operationStatus body),
       Transition (Enter_idle None (Some body) result callback)])"

definition responseError_onEnter ::
  "error option \<Rightarrow> body option \<Rightarrow> result option \<Rightarrow> callback \<Rightarrow> handler"
where
  "responseError_onEnter err body result callback m =
     (m\<lparr>currentOperationCallback := None\<rparr>,
      [Transition (Enter_endingSession err body result callback)])"

definition waitingToPoll_onEnter ::
  "request \<Rightarrow> string option \<Rightarrow> pollingInterval \<Rightarrow> callback \<Rightarrow> handler"
where
  "waitingToPoll_onEnter request opId pollingInterval callback m =
     (m\<lparr>pollingTimer := Some (request, opId, pollingInterval, callback)\<rparr>,
      [Effect (SetTimeout (request, opId, pollingInterval, callback) pollingInterval)])"

definition polling_onEnter ::
  "request \<Rightarrow> string option \<Rightarrow> pollingInterval \<Rightarrow> callback \<Rightarrow> handler"
where
  "polling_onEnter request opId pollingInterval callback m =
     (m, [Effect (Transport_queryOperationStatus request opId callback)])"

definition endingSession_onEnter ::
  "error option \<Rightarrow> body option \<Rightarrow> result option \<Rightarrow> callback \<Rightarrow> handler"
where
  "endingSession_onEnter err body result callback m =
     (case currentOperationCallback m of
        Some cb \<Rightarrow>
          (m\<lparr>currentOperationCallback := None\<rparr>,
           [Effect (CallCallback cb (Some (OperationCancelledError '''')) None None),
            Effect (Transport_endSession err body result callback)])
      | None \<Rightarrow> (m, [Effect (Transport_endSession err body result callback)]))"

fun onEnter :: "enter \<Rightarrow> handler" where
  "onEnter (Enter_disconnected err body result callback) =
     disconnected_onEnter err body result callback"
| "onEnter (Enter_idle err body result callback) = idle_onEnter err body result callback"
| "onEnter (Enter_sendingRegistrationRequest request requestBody callback) =
     sendingRegistrationRequest_onEnter request requestBody callback"
| "onEnter (Enter_responseReceived err request body result pollingInterval callback) =
     responseReceived_onEnter err request body result pollingInterval callback"
| "onEnter (Enter_responseComplete body result callback) =
     responseComplete_onEnter body result callback"
| "onEnter (Enter_responseError err body result callback) =
     responseError_onEnter err body result callback"
| "onEnter (Enter_waitingToPoll request opId pollingInterval callback) =
     waitingToPoll_onEnter request opId pollingInterval callback"
| "onEnter (Enter_polling request opId pollingInterval callback) =
     polling_onEnter request opId pollingInterval callback"
| "onEnter (Enter_endingSession err body result callback) =
     endingSession_onEnter err body result callback"

subsection \<open>Transitions\<close>

text \<open>
  machina's \<^verbatim>\<open>transition(newState, ...args)\<close>: nothing happens when the new state is the
  current one; otherwise the state changes and the \<^verbatim>\<open>_onEnter\<close> handler of the new state
  runs with the arguments. When it has returned, and unless a further transition has
  happened meanwhile (\<^verbatim>\<open>targetReplayState === newState\<close>), \<^verbatim>\<open>processQueue\<close> takes every
  deferred input out of the queue (no input is deferred with a state name) and handles
  each again, in order.
\<close>

definition transition :: "enter \<Rightarrow> handler" where
  "transition e m =
     (if target e = fsm_state m then (m, [])
      else
        (case onEnter e (m\<lparr>targetReplayState := target e, fsm_state := target e\<rparr>) of
           (m', todo) \<Rightarrow> (m', todo @ [ProcessQueue (target e)])))"

definition processQueue :: "state \<Rightarrow> handler" where
  "processQueue newState m =
     (if targetReplayState m = newState
      then (m\<lparr>inputQueue := []\<rparr>, map Handle (inputQueue m))
      else (m, []))"

subsection \<open>Input handlers\<close>

text \<open>
  machina's \<^verbatim>\<open>deferUntilTransition()\<close>, called without a state name: the input being
  handled goes to the end of the queue.
\<close>

definition deferUntilTransition :: "input \<Rightarrow> handler" where
  "deferUntilTransition i m = (m\<lparr>inputQueue := inputQueue m @ [i]\<rparr>, [])"

definition disconnected_register :: "request \<Rightarrow> requestBody \<Rightarrow> callback \<Rightarrow> handler" where
  "disconnected_register request requestBody callback m =
     (m, [Transition (Enter_sendingRegistrationRequest request requestBody callback)])"

definition disconnected_endSession ::
  "error option \<Rightarrow> body option \<Rightarrow> result option \<Rightarrow> callback \<Rightarrow> handler"
where
  "disconnected_endSession err body result callback m =
     (m, [Effect (CallCallback callback None None None)])"

definition idle_endSession ::
  "error option \<Rightarrow> body option \<Rightarrow> result option \<Rightarrow> callback \<Rightarrow> handler"
where
  "idle_endSession err body result callback m =
     (m, [Transition (Enter_endingSession err body result callback)])"

definition idle_register :: "request \<Rightarrow> requestBody \<Rightarrow> callback \<Rightarrow> handler" where
  "idle_register request requestBody callback m =
     (m, [Transition (Enter_sendingRegistrationRequest request requestBody callback)])"

definition sendingRegistrationRequest_endSession ::
  "error option \<Rightarrow> body option \<Rightarrow> result option \<Rightarrow> callback \<Rightarrow> handler"
where
  "sendingRegistrationRequest_endSession err body result callback m =
     (m, [Transition (Enter_endingSession err body result callback)])"

definition sendingRegistrationRequest_register ::
  "request \<Rightarrow> requestBody \<Rightarrow> callback \<Rightarrow> handler" where
  "sendingRegistrationRequest_register request requestBody callback m =
     (m, [Effect (CallCallback callback
            (Some (InvalidOperationError ''another operation is in progress'')) None None)])"

definition waitingToPoll_endSession ::
  "error option \<Rightarrow> body option \<Rightarrow> result option \<Rightarrow> callback \<Rightarrow> handler"
where
  "waitingToPoll_endSession err body result callback m =
     (m\<lparr>pollingTimer := None\<rparr>,
      [Effect (ClearTimeout (pollingTimer m)),
       Transition (Enter_endingSession err body result callback)])"

definition waitingToPoll_register :: "request \<Rightarrow> requestBody \<Rightarrow> callback \<Rightarrow> handler" where
  "waitingToPoll_register request requestBody callback m =
     (m, [Effect (CallCallback callback
            (Some (InvalidOperationError ''another operation is in progress'')) None None)])"

definition polling_endSession ::
  "error option \<Rightarrow> body option \<Rightarrow> result option \<Rightarrow> callback \<Rightarrow> handler"
where
  "polling_endSession err body result callback m =
     (m, [Transition (Enter_endingSession err body result callback)])"

definition polling_register :: "request \<Rightarrow> requestBody \<Rightarrow> callback \<Rightarrow> handler" where
  "polling_register request requestBody callback m =
     (m, [Effect (CallCallback callback
            (Some (InvalidOperationError ''another operation is in progress'')) None None)])"

text \<open>
  machina's \<^verbatim>\<open>handle\<close>: the handler of the current state named after the input, or else
  the state's catch-all \<^verbatim>\<open>'*'\<close>. Every state of this configuration has one or the other.
\<close>

fun handle :: "input \<Rightarrow> handler" where
  "handle (Register request requestBody callback) m =
     (case fsm_state m of
        Disconnected \<Rightarrow> disconnected_register request requestBody callback m
      | Idle \<Rightarrow> idle_register request requestBody callback m
      | SendingRegistrationRequest \<Rightarrow>
          sendingRegistrationRequest_register request requestBody callback m
      | ResponseReceived \<Rightarrow> deferUntilTransition (Register request requestBody callback) m
      | ResponseComplete \<Rightarrow> deferUntilTransition (Register request requestBody callback) m
      | ResponseError \<Rightarrow> deferUntilTransition (Register request requestBody callback) m
      | WaitingToPoll \<Rightarrow> waitingToPoll_register request requestBody callback m
      | Polling \<Rightarrow> polling_register request requestBody callback m
      | EndingSession \<Rightarrow> deferUntilTransition (Register request requestBody callback) m)"
| "handle (EndSession err body result callback) m =
     (case fsm_state m of
        Disconnected \<Rightarrow> disconnected_endSession err body result callback m
      | Idle \<Rightarrow> idle_endSession err body result callback m
      | SendingRegistrationRequest \<Rightarrow>
          sendingRegistrationRequest_endSession err body result callback m
      | ResponseReceived \<Rightarrow> deferUntilTransition (EndSession err body result callback) m
      | ResponseComplete \<Rightarrow> deferUntilTransition (EndSession err body result callback) m
      | ResponseError \<Rightarrow> deferUntilTransition (EndSession err body result callback) m
      | WaitingToPoll \<Rightarrow> waitingToPoll_endSession err body result callback m
      | Polling \<Rightarrow> polling_endSession err body result callback m
      | EndingSession \<Rightarrow> deferUntilTransition (EndSession err body result callback) m)"

subsection \<open>The public methods and the closures\<close>

definition register :: "request \<Rightarrow> requestBody \<Rightarrow> callback \<Rightarrow> handler" where
  "register request requestBody callback m =
     (m, [Handle (Register request requestBody callback)])"

definition endSession :: "callback \<Rightarrow> handler" where
  "endSession callback m = (m, [Handle (EndSession None None None callback)])"

definition registrationRequest_done ::
  "request \<Rightarrow> callback \<Rightarrow> error option \<Rightarrow> body option \<Rightarrow> result option \<Rightarrow> pollingInterval
    \<Rightarrow> handler"
where
  "registrationRequest_done request callback err body result pollingInterval m =
     (if currentOperationCallback m = Some callback
      then (m, [Transition
                  (Enter_responseReceived err request body result pollingInterval callback)])
      else (m, []))"

definition queryOperationStatus_done ::
  "request \<Rightarrow> callback \<Rightarrow> error option \<Rightarrow> body option \<Rightarrow> result option \<Rightarrow> pollingInterval
    \<Rightarrow> handler"
where
  "queryOperationStatus_done request callback err body result pollingInterval m =
     (if currentOperationCallback m = Some callback
      then (m, [Transition
                  (Enter_responseReceived err request body result pollingInterval callback)])
      else (m, []))"

definition timer_fired :: "timer \<Rightarrow> handler" where
  "timer_fired t m =
     (case t of
        (request, opId, pollingInterval, callback) \<Rightarrow>
          (m, [Transition (Enter_polling request opId pollingInterval callback)]))"

definition endSession_done ::
  "error option \<Rightarrow> body option \<Rightarrow> result option \<Rightarrow> callback \<Rightarrow> error option \<Rightarrow> handler"
where
  "endSession_done err body result callback disconnectErr m =
     (m, [Transition
            (Enter_disconnected (or_else err disconnectErr) body result (Some callback))])"

fun occur :: "event \<Rightarrow> handler" where
  "occur (Call_register request requestBody callback) = register request requestBody callback"
| "occur (Call_endSession callback) = endSession callback"
| "occur (Done_registrationRequest request callback err body result pollingInterval) =
     registrationRequest_done request callback err body result pollingInterval"
| "occur (Done_queryOperationStatus request callback err body result pollingInterval) =
     queryOperationStatus_done request callback err body result pollingInterval"
| "occur (Fire_timer t) = timer_fired t"
| "occur (Done_endSession err body result callback disconnectErr) =
     endSession_done err body result callback disconnectErr"

subsection \<open>Running the statements\<close>

text \<open>
  The actions that call a function of the caller: a callback, or the listeners of
  \<^verbatim>\<open>operationStatus\<close>.
\<close>

fun calls_back :: "action \<Rightarrow> bool" where
  "calls_back (CallCallback callback err body result) = True"
| "calls_back (Emit_operationStatus body) = True"
| "calls_back a = False"

definition logged :: "action \<Rightarrow> outcome \<Rightarrow> outcome" where
  "logged a r = (case r of (m, out, thrown) \<Rightarrow> (m, a # out, thrown))"

definition preceded :: "action list \<Rightarrow> outcome \<Rightarrow> outcome" where
  "preceded before r = (case r of (m, out, thrown) \<Rightarrow> (m, before @ out, thrown))"

text \<open>
  The statements still to run, the first one first, as a call stack holds them: what a
  statement calls runs before the statements after it. An action is recorded; when it
  calls a function of the caller, the events that happen during that call run first. A
  \<^verbatim>\<open>throw\<close> ends everything, since no frame catches it. The four measures are for the
  termination proof below.
\<close>

fun calling :: "task \<Rightarrow> nat" where
  "calling (Handle i) = 1"
| "calling (Run e) = 1"
| "calling t = 0"

fun handling :: "task \<Rightarrow> nat" where
  "handling (Handle i) = 1"
| "handling t = 0"

fun depth :: "enter \<Rightarrow> nat" where
  "depth (Enter_responseReceived err request body result pollingInterval callback) = 9"
| "depth (Enter_responseComplete body result callback) = 7"
| "depth (Enter_responseError err body result callback) = 6"
| "depth e = 4"

fun weight :: "task \<Rightarrow> nat" where
  "weight (Transition e) = depth e"
| "weight (Handle i) = 0"
| "weight (Run e) = 10"
| "weight t = 1"

function exec :: "task list \<Rightarrow> reactions \<Rightarrow> machine \<Rightarrow> outcome" where
  "exec [] rs m = (m, [], None)"
| "exec (Effect a # todo) rs m =
     (if calls_back a
      then (case rs of
              [] \<Rightarrow> logged a (exec todo [] m)
            | during # rs' \<Rightarrow> logged a (exec (map Run during @ todo) rs' m))
      else logged a (exec todo rs m))"
| "exec (Raise x # todo) rs m = (m, [], Some x)"
| "exec (Handle i # todo) rs m =
     (case handle i m of (m', first) \<Rightarrow> exec (first @ todo) rs m')"
| "exec (Transition e # todo) rs m =
     (case transition e m of (m', first) \<Rightarrow> exec (first @ todo) rs m')"
| "exec (ProcessQueue s # todo) rs m =
     (case processQueue s m of (m', first) \<Rightarrow> exec (first @ todo) rs m')"
| "exec (Run e # todo) rs m =
     (case occur e m of (m', first) \<Rightarrow> exec (first @ todo) rs m')"
  by pat_completeness auto

subsection \<open>Events\<close>

text \<open>
  One event, run to the end, with what the callbacks and listeners do while it runs; and
  an event during which they call nothing.
\<close>

definition step_with :: "reactions \<Rightarrow> machine \<Rightarrow> event \<Rightarrow> outcome" where
  "step_with rs m e = exec [Run e] rs m"

definition step :: "machine \<Rightarrow> event \<Rightarrow> outcome" where
  "step m e = step_with [] m e"

text \<open>
  A sequence of events. An exception that leaves an event handler is not caught by
  anything in this file: the run ends there.
\<close>

fun run_with :: "machine \<Rightarrow> (event \<times> reactions) list \<Rightarrow> outcome" where
  "run_with m [] = (m, [], None)"
| "run_with m ((e, rs) # es) =
     (case step_with rs m e of
        (m1, out1, thrown) \<Rightarrow>
          if thrown \<noteq> None then (m1, out1, thrown)
          else (case run_with m1 es of
                  (m2, out2, thrown2) \<Rightarrow> (m2, out1 @ out2, thrown2)))"

fun run :: "machine \<Rightarrow> event list \<Rightarrow> outcome" where
  "run m [] = (m, [], None)"
| "run m (e # es) =
     (case step m e of
        (m1, out1, thrown) \<Rightarrow>
          if thrown \<noteq> None then (m1, out1, thrown)
          else (case run m1 es of (m2, out2, thrown2) \<Rightarrow> (m2, out1 @ out2, thrown2)))"

text \<open>The replay of deferred inputs when no callback calls the machine.\<close>

definition drain :: "input list \<Rightarrow> machine \<Rightarrow> outcome" where
  "drain replay m = exec (map Handle replay) [] m"

text \<open>
  The machine after the constructor: machina enters the initial state
  \<^verbatim>\<open>disconnected\<close> with no arguments, which sets \<^verbatim>\<open>_currentOperationCallback\<close> to null and
  calls nothing.
\<close>

definition init :: machine where
  "init = \<lparr>fsm_state = Disconnected, targetReplayState = Disconnected, inputQueue = [],
     currentOperationCallback = None, pollingTimer = None\<rparr>"

subsection \<open>Observations on the actions\<close>

text \<open>The bodies emitted as \<^verbatim>\<open>operationStatus\<close> events, in order.\<close>

fun emitted :: "action list \<Rightarrow> body list" where
  "emitted [] = []"
| "emitted (Emit_operationStatus b # out) = b # emitted out"
| "emitted (a # out) = emitted out"

text \<open>How many times a callback is called.\<close>

fun resolutions :: "callback \<Rightarrow> action list \<Rightarrow> nat" where
  "resolutions cb [] = 0"
| "resolutions cb (CallCallback c err body result # out) =
     (if c = cb then 1 else 0) + resolutions cb out"
| "resolutions cb (a # out) = resolutions cb out"

text \<open>
  The callbacks given to \<^verbatim>\<open>register\<close> and \<^verbatim>\<open>endSession\<close> by a sequence of events, and those
  among them that have not been called when the sequence has run from the initial machine.
\<close>

fun accepted :: "event list \<Rightarrow> callback list" where
  "accepted [] = []"
| "accepted (Call_register request requestBody callback # es) = callback # accepted es"
| "accepted (Call_endSession callback # es) = callback # accepted es"
| "accepted (e # es) = accepted es"

definition outstanding :: "event list \<Rightarrow> callback list" where
  "outstanding es =
     filter (\<lambda>cb. resolutions cb (fst (snd (run init es))) = 0) (accepted es)"

subsection \<open>Invariants\<close>

text \<open>
  The machine between two events: it is not in one of the three states that are left
  within their own entry handler, the operation callback is null in \<^verbatim>\<open>disconnected\<close>,
  \<^verbatim>\<open>idle\<close> and \<^verbatim>\<open>endingSession\<close>, and inputs are deferred only in \<^verbatim>\<open>endingSession\<close>.
\<close>

definition resting :: "machine \<Rightarrow> bool" where
  "resting m =
     ((fsm_state m = SendingRegistrationRequest \<or> fsm_state m = WaitingToPoll \<or>
       fsm_state m = Polling \<or>
       (fsm_state m = Disconnected \<or> fsm_state m = Idle \<or> fsm_state m = EndingSession) \<and>
       currentOperationCallback m = None) \<and>
      (inputQueue m = [] \<or> fsm_state m = EndingSession))"

section \<open>Termination\<close>

text \<open>
  Running a list of statements ends. Each call of a callback or listener uses up one
  entry of the reactions. After that, the inputs still to be handled (in the list and in
  the queue) never grow in number, and they shrink when one is handled by a handler that
  does not defer it. A transition is replaced by fewer statements by weight, the end of
  a transition by inputs without weight, and a deferred input leaves the list.
\<close>

lemma onEnter_queue: "inputQueue (fst (onEnter e m)) = inputQueue m"
  by (cases e)
    (simp_all add: disconnected_onEnter_def idle_onEnter_def
      sendingRegistrationRequest_onEnter_def responseReceived_onEnter_def
      responseComplete_onEnter_def responseError_onEnter_def waitingToPoll_onEnter_def
      polling_onEnter_def endingSession_onEnter_def split: option.splits)

lemma onEnter_calling: "sum_list (map calling (snd (onEnter e m))) = 0"
  by (cases e)
    (auto simp: disconnected_onEnter_def idle_onEnter_def
      sendingRegistrationRequest_onEnter_def responseReceived_onEnter_def
      responseComplete_onEnter_def responseError_onEnter_def waitingToPoll_onEnter_def
      polling_onEnter_def endingSession_onEnter_def split: option.splits)

lemma onEnter_weight: "Suc (sum_list (map weight (snd (onEnter e m)))) < depth e"
  by (cases e)
    (simp_all add: disconnected_onEnter_def idle_onEnter_def
      sendingRegistrationRequest_onEnter_def responseReceived_onEnter_def
      responseComplete_onEnter_def responseError_onEnter_def waitingToPoll_onEnter_def
      polling_onEnter_def endingSession_onEnter_def split: option.splits)

lemma transition_measures:
  assumes "transition e m = (m', first)"
  shows "inputQueue m' = inputQueue m" and "sum_list (map calling first) = 0"
    and "sum_list (map weight first) < depth e"
proof -
  have d: "0 < depth e" by (cases e) simp_all
  obtain m1 todo where o: "onEnter e (m\<lparr>targetReplayState := target e, fsm_state := target e\<rparr>)
      = (m1, todo)"
    by (cases "onEnter e (m\<lparr>targetReplayState := target e, fsm_state := target e\<rparr>)")
  from onEnter_queue[of e "m\<lparr>targetReplayState := target e, fsm_state := target e\<rparr>"]
    onEnter_calling[of e "m\<lparr>targetReplayState := target e, fsm_state := target e\<rparr>"]
    onEnter_weight[of e "m\<lparr>targetReplayState := target e, fsm_state := target e\<rparr>"]
  have q: "inputQueue m1 = inputQueue m" and c: "sum_list (map calling todo) = 0"
    and w: "Suc (sum_list (map weight todo)) < depth e"
    by (simp_all add: o)
  from assms o q show "inputQueue m' = inputQueue m"
    by (auto simp: transition_def split: if_splits)
  from assms o c show "sum_list (map calling first) = 0"
    by (auto simp: transition_def split: if_splits)
  from assms o w d show "sum_list (map weight first) < depth e"
    by (auto simp: transition_def split: if_splits)
qed

lemma handle_measures:
  assumes "handle i m = (m', first)"
  shows "(first = [] \<and> inputQueue m' = inputQueue m @ [i]) \<or>
         (inputQueue m' = inputQueue m \<and> sum_list (map calling first) = 0)"
proof (cases i)
  case (Register request requestBody callback)
  show ?thesis
    using assms unfolding Register
    by (cases "fsm_state m")
      (auto simp: disconnected_register_def idle_register_def
        sendingRegistrationRequest_register_def waitingToPoll_register_def
        polling_register_def deferUntilTransition_def)
next
  case (EndSession err body result callback)
  show ?thesis
    using assms unfolding EndSession
    by (cases "fsm_state m")
      (auto simp: disconnected_endSession_def idle_endSession_def
        sendingRegistrationRequest_endSession_def waitingToPoll_endSession_def
        polling_endSession_def deferUntilTransition_def)
qed

lemma calling_Handle: "sum_list (map calling (map Handle q)) = length q"
  and weight_Handle: "sum_list (map weight (map Handle q)) = 0"
  by (induction q) simp_all

lemma processQueue_measures:
  assumes "processQueue s m = (m', first)"
  shows "length (inputQueue m') + sum_list (map calling first) = length (inputQueue m)"
    and "sum_list (map weight first) = 0"
  using assms
  by (auto simp: processQueue_def calling_Handle weight_Handle simp del: map_map
      split: if_splits)

lemma occur_measures:
  assumes "occur e m = (m', first)"
  shows "inputQueue m' = inputQueue m"
    and "(\<exists>i. first = [Handle i]) \<or> sum_list (map calling first) = 0"
  using assms
  by (cases e;
      auto simp: register_def endSession_def registrationRequest_done_def
        queryOperationStatus_done_def timer_fired_def endSession_done_def
        split: if_splits prod.splits)+

termination exec
proof (relation "measures
    [\<lambda>(todo, rs, m). length rs,
     \<lambda>(todo, rs, m). length (inputQueue m) + sum_list (map calling todo),
     \<lambda>(todo, rs, m). sum_list (map weight todo),
     \<lambda>(todo, rs, m). sum_list (map handling todo)]", goal_cases)
  case 1
  then show ?case by simp
next
  case (2 a todo rs m)
  then show ?case by simp
next
  case (3 a todo rs m during rs')
  then show ?case by simp
next
  case (4 a todo rs m)
  then show ?case by simp
next
  case (5 i todo rs m x y)
  from handle_measures[OF 5[symmetric]] show ?case
    by auto
next
  case (6 e todo rs m x y)
  from transition_measures[OF 6[symmetric]] show ?case
    by auto
next
  case (7 s todo rs m x y)
  from processQueue_measures[OF 7[symmetric]] show ?case
    by auto
next
  case (8 e todo rs m x y)
  from occur_measures[OF 8[symmetric]] show ?case
    by auto
qed

section \<open>Unfolding the handlers\<close>

lemmas body_defs =
  disconnected_onEnter_def idle_onEnter_def sendingRegistrationRequest_onEnter_def
  responseReceived_onEnter_def responseComplete_onEnter_def responseError_onEnter_def
  waitingToPoll_onEnter_def polling_onEnter_def endingSession_onEnter_def
  transition_def processQueue_def deferUntilTransition_def
  disconnected_register_def disconnected_endSession_def idle_endSession_def
  idle_register_def sendingRegistrationRequest_endSession_def
  sendingRegistrationRequest_register_def waitingToPoll_endSession_def
  waitingToPoll_register_def polling_endSession_def polling_register_def
  register_def endSession_def registrationRequest_done_def queryOperationStatus_done_def
  timer_fired_def endSession_done_def or_else_def

lemmas handler_defs = body_defs logged_def

lemmas event_defs = step_def step_with_def drain_def

text \<open>The three status words are in lower case already.\<close>

lemma lower_assigned: "toLowerCase ''assigned'' = ''assigned''"
  and lower_assigning: "toLowerCase ''assigning'' = ''assigning''"
  and lower_failed: "toLowerCase ''failed'' = ''failed''"
  by (simp_all add: toLowerCase_def)

lemma resolutions_append:
  "resolutions cb (xs @ ys) = resolutions cb xs + resolutions cb ys"
  by (induction cb xs rule: resolutions.induct) simp_all

lemma run_Cons_same:
  "step m e = (m, out, None) \<Longrightarrow>
   run m (e # es) = (case run m es of (m', out', thrown) \<Rightarrow> (m', out @ out', thrown))"
  by simp

text \<open>Actions in front of an outcome, and two machines with the same fields.\<close>

lemma preceded_Nil: "preceded [] r = r"
  and preceded_preceded: "preceded xs (preceded ys r) = preceded (xs @ ys) r"
  and logged_preceded: "logged a (preceded ys r) = preceded (a # ys) r"
  and preceded_result: "preceded xs (m, out, thrown) = (m, xs @ out, thrown)"
  by (simp_all add: preceded_def logged_def split: prod.splits)

lemma logged_as_preceded: "logged a r = preceded [a] r"
  by (simp add: preceded_def logged_def)

lemma continue_eq:
  fixes m m' :: machine
  assumes "out = out'" and "fsm_state m = fsm_state m'"
    and "targetReplayState m = targetReplayState m'" and "inputQueue m = inputQueue m'"
    and "currentOperationCallback m = currentOperationCallback m'"
    and "pollingTimer m = pollingTimer m'"
  shows "preceded out (exec todo rs m) = preceded out' (exec todo rs m')"
proof -
  have "m = m'"
    using assms(2-) by (intro machine.equality) simp_all
  with assms(1) show ?thesis by simp
qed

text \<open>One statement at a time.\<close>

lemma exec_same_machine:
  fixes m m' :: machine
  assumes "fsm_state m = fsm_state m'"
    and "targetReplayState m = targetReplayState m'" and "inputQueue m = inputQueue m'"
    and "currentOperationCallback m = currentOperationCallback m'"
    and "pollingTimer m = pollingTimer m'"
  shows "exec todo rs m = exec todo rs m'"
proof -
  have "m = m'"
    using assms by (intro machine.equality) simp_all
  then show ?thesis by simp
qed

lemma exec_Handle:
  "exec (Handle i # todo) rs m = exec (snd (handle i m) @ todo) rs (fst (handle i m))"
  and exec_Transition:
  "exec (Transition e # todo) rs m
     = exec (snd (transition e m) @ todo) rs (fst (transition e m))"
  and exec_ProcessQueue:
  "exec (ProcessQueue s # todo) rs m
     = exec (snd (processQueue s m) @ todo) rs (fst (processQueue s m))"
  and exec_Run:
  "exec (Run ev # todo) rs m = exec (snd (occur ev m) @ todo) rs (fst (occur ev m))"
  by (simp_all split: prod.splits)

lemma exec_plain:
  "\<not> calls_back a \<Longrightarrow> exec (Effect a # todo) rs m = logged a (exec todo rs m)"
  by simp

lemma exec_called:
  "calls_back a \<Longrightarrow>
     exec (Effect a # todo) (during # rs) m = logged a (exec (map Run during @ todo) rs m)"
  and exec_called_silent:
  "calls_back a \<Longrightarrow> exec (Effect a # todo) [] m = logged a (exec todo [] m)"
  by simp_all

lemma logged_cong: "r = r' \<Longrightarrow> logged a r = logged a r'"
  by simp

section \<open>The machine between two events\<close>

text \<open>
  When no callback calls the machine, an input handled by a resting machine leaves it
  resting: the input is deferred (in \<^verbatim>\<open>endingSession\<close>), or it finds the queue empty and
  its transition replays nothing.
\<close>

lemma handle_resting:
  assumes "resting m"
  shows "\<exists>m1 out. (\<forall>todo. exec (Handle i # todo) [] m = preceded out (exec todo [] m1)) \<and>
     resting m1"
proof (cases i)
  case (Register request requestBody callback)
  consider "fsm_state m = Disconnected \<or> fsm_state m = Idle"
    | "fsm_state m = SendingRegistrationRequest \<or> fsm_state m = WaitingToPoll \<or>
       fsm_state m = Polling"
    | "fsm_state m = EndingSession"
    using assms by (auto simp: resting_def)
  then show ?thesis
  proof cases
    case 1
    with assms show ?thesis
      unfolding Register
      by (intro exI[of _ "m\<lparr>targetReplayState := SendingRegistrationRequest,
            fsm_state := SendingRegistrationRequest,
            currentOperationCallback := Some callback, inputQueue := []\<rparr>"]
          exI[of _ "[Transport_registrationRequest request requestBody callback]"])
        (auto simp: resting_def body_defs logged_as_preceded preceded_preceded preceded_Nil
          intro!: continue_eq split: option.splits)
  next
    case 2
    with assms show ?thesis
      unfolding Register
      by (intro exI[of _ m]
          exI[of _ "[CallCallback callback
            (Some (InvalidOperationError ''another operation is in progress'')) None None]"])
        (auto simp: resting_def body_defs logged_as_preceded preceded_preceded preceded_Nil
          intro!: continue_eq split: option.splits)
  next
    case 3
    with assms show ?thesis
      unfolding Register
      by (intro exI[of _ "m\<lparr>inputQueue := inputQueue m @ [Register request requestBody callback]\<rparr>"]
          exI[of _ "[]"])
        (auto simp: resting_def body_defs logged_as_preceded preceded_preceded preceded_Nil
          intro!: continue_eq split: option.splits)
  qed
next
  case (EndSession err body result callback)
  consider "fsm_state m = Disconnected"
    | "fsm_state m = Idle \<or> fsm_state m = SendingRegistrationRequest \<or> fsm_state m = Polling"
    | "fsm_state m = WaitingToPoll"
    | "fsm_state m = EndingSession"
    using assms by (auto simp: resting_def)
  then show ?thesis
  proof cases
    case 1
    with assms show ?thesis
      unfolding EndSession
      by (intro exI[of _ m] exI[of _ "[CallCallback callback None None None]"])
        (auto simp: resting_def body_defs logged_as_preceded preceded_preceded preceded_Nil
          intro!: continue_eq split: option.splits)
  next
    case 2
    with assms show ?thesis
      unfolding EndSession
      by (intro exI[of _ "m\<lparr>targetReplayState := EndingSession, fsm_state := EndingSession,
            currentOperationCallback := None, inputQueue := []\<rparr>"]
          exI[of _ "(case currentOperationCallback m of
              Some cb \<Rightarrow> [CallCallback cb (Some (OperationCancelledError '''')) None None]
            | None \<Rightarrow> []) @ [Transport_endSession err body result callback]"])
        (auto simp: resting_def body_defs logged_as_preceded preceded_preceded preceded_Nil
          intro!: continue_eq split: option.splits)
  next
    case 3
    with assms show ?thesis
      unfolding EndSession
      by (intro exI[of _ "m\<lparr>targetReplayState := EndingSession, fsm_state := EndingSession,
            currentOperationCallback := None, pollingTimer := None, inputQueue := []\<rparr>"]
          exI[of _ "ClearTimeout (pollingTimer m) # (case currentOperationCallback m of
              Some cb \<Rightarrow> [CallCallback cb (Some (OperationCancelledError '''')) None None]
            | None \<Rightarrow> []) @ [Transport_endSession err body result callback]"])
        (auto simp: resting_def body_defs logged_as_preceded preceded_preceded preceded_Nil
          intro!: continue_eq split: option.splits)
  next
    case 4
    with assms show ?thesis
      unfolding EndSession
      by (intro exI[of _ "m\<lparr>inputQueue := inputQueue m @ [EndSession err body result callback]\<rparr>"]
          exI[of _ "[]"])
        (auto simp: resting_def body_defs logged_as_preceded preceded_preceded preceded_Nil
          intro!: continue_eq split: option.splits)
  qed
qed

lemma replay_resting:
  "resting m \<Longrightarrow>
   \<exists>m' out. (\<forall>todo. exec (map Handle replay @ todo) [] m = preceded out (exec todo [] m')) \<and>
     resting m'"
proof (induction replay arbitrary: m)
  case Nil
  then show ?case
    by (intro exI[of _ m] exI[of _ "[]"]) (simp add: preceded_Nil)
next
  case (Cons i replay)
  from handle_resting[OF Cons.prems, of i]
  obtain m1 out1
    where h: "\<And>todo. exec (Handle i # todo) [] m = preceded out1 (exec todo [] m1)"
      and r: "resting m1"
    by blast
  from Cons.IH[OF r] obtain m' out
    where d: "\<And>todo. exec (map Handle replay @ todo) [] m1 = preceded out (exec todo [] m')"
      and r': "resting m'"
    by blast
  show ?case
    by (intro exI[of _ m'] exI[of _ "out1 @ out"])
      (simp add: h d r' preceded_preceded del: exec.simps)
qed

lemma drain_resting:
  "resting m \<Longrightarrow> \<exists>m' out. drain replay m = (m', out, None) \<and> resting m'"
  using replay_resting[of m replay]
  by (fastforce simp: drain_def preceded_def dest: spec[of _ "[]"])


lemma step_resting:
  assumes "resting m" and "step m e = (m', out, None)"
  shows "resting m'"
proof (cases e)
  case (Call_register request requestBody callback)
  from handle_resting[OF assms(1), of "Register request requestBody callback"]
  obtain m1 out1
    where h: "exec [Handle (Register request requestBody callback)] [] m
        = preceded out1 (exec [] [] m1)"
      and r: "resting m1"
    by blast
  have "exec [Run (Call_register request requestBody callback)] [] m
      = exec [Handle (Register request requestBody callback)] [] m"
    by (simp add: register_def)
  then have "step m e = (m1, out1, None)"
    unfolding Call_register step_def step_with_def h by (simp add: preceded_def)
  with assms(2) r show ?thesis
    by simp
next
  case (Call_endSession callback)
  from handle_resting[OF assms(1), of "EndSession None None None callback"]
  obtain m1 out1
    where h: "exec [Handle (EndSession None None None callback)] [] m
        = preceded out1 (exec [] [] m1)"
      and r: "resting m1"
    by blast
  have "exec [Run (Call_endSession callback)] [] m
      = exec [Handle (EndSession None None None callback)] [] m"
    by (simp add: endSession_def)
  then have "step m e = (m1, out1, None)"
    unfolding Call_endSession step_def step_with_def h by (simp add: preceded_def)
  with assms(2) r show ?thesis
    by simp
next
  case (Done_registrationRequest request callback err body result pollingInterval)
  show ?thesis
  proof (cases "currentOperationCallback m = Some callback")
    case True
    with assms show ?thesis
      by (auto simp: Done_registrationRequest event_defs handler_defs resting_def
          split: if_splits option.splits)
  next
    case False
    with assms show ?thesis
      by (simp add: Done_registrationRequest event_defs handler_defs)
  qed
next
  case (Done_queryOperationStatus request callback err body result pollingInterval)
  show ?thesis
  proof (cases "currentOperationCallback m = Some callback")
    case True
    with assms show ?thesis
      by (auto simp: Done_queryOperationStatus event_defs handler_defs resting_def
          split: if_splits option.splits)
  next
    case False
    with assms show ?thesis
      by (simp add: Done_queryOperationStatus event_defs handler_defs)
  qed
next
  case (Fire_timer t)
  obtain request opId pollingInterval callback
    where t: "t = (request, opId, pollingInterval, callback)"
    by (cases t) auto
  show ?thesis
  proof (cases "fsm_state m = Polling")
    case True
    with assms show ?thesis
      by (simp add: Fire_timer t event_defs handler_defs)
  next
    case False
    let ?m1 = "m\<lparr>targetReplayState := Polling, fsm_state := Polling, inputQueue := []\<rparr>"
    have "resting ?m1"
      by (simp add: resting_def)
    from drain_resting[OF this, of "inputQueue m"]
    obtain m2 out2 where "drain (inputQueue m) ?m1 = (m2, out2, None)" and "resting m2"
      by blast
    with assms(2) False show ?thesis
      by (simp add: Fire_timer t event_defs handler_defs)
  qed
next
  case (Done_endSession err body result callback disconnectErr)
  show ?thesis
  proof (cases "fsm_state m = Disconnected")
    case True
    with assms show ?thesis
      by (simp add: Done_endSession event_defs handler_defs)
  next
    case False
    let ?m1 = "m\<lparr>targetReplayState := Disconnected, fsm_state := Disconnected,
        currentOperationCallback := None, inputQueue := []\<rparr>"
    have "resting ?m1"
      by (simp add: resting_def)
    from drain_resting[OF this, of "inputQueue m"]
    obtain m2 out2 where "drain (inputQueue m) ?m1 = (m2, out2, None)" and "resting m2"
      by blast
    with assms(2) False show ?thesis
      by (simp add: Done_endSession event_defs handler_defs)
  qed
qed

lemma run_resting:
  "resting m \<Longrightarrow> run m es = (m', out, None) \<Longrightarrow> resting m'"
proof (induction es arbitrary: m out)
  case Nil
  then show ?case by simp
next
  case (Cons e es)
  obtain m1 out1 thrown where s: "step m e = (m1, out1, thrown)"
    by (cases "step m e") auto
  with Cons.prems(2) have n: "thrown = None"
    by (auto split: if_splits)
  obtain m2 out2 thrown2 where r: "run m1 es = (m2, out2, thrown2)"
    by (cases "run m1 es") auto
  from Cons.prems(2) s n r have "m2 = m'" "thrown2 = None"
    by simp_all
  with r Cons.IH[OF step_resting[OF Cons.prems(1) s[unfolded n]]] show ?case
    by simp
qed

lemma resting_init: "resting init"
  by (simp add: resting_def init_def)

section \<open>The claims\<close>

text \<open>
  C1. A transport completion (of \<^verbatim>\<open>registrationRequest\<close> or of \<^verbatim>\<open>queryOperationStatus\<close>)
  whose captured callback is not the machine's current operation callback changes
  nothing and calls nothing. In particular: after \<^verbatim>\<open>register\<close> and then \<^verbatim>\<open>endSession\<close> in
  \<^verbatim>\<open>sendingRegistrationRequest\<close>, the completion of the original registration request,
  delivered before or after the transport has ended the session, resolves no callback:
  the register callback has been called once, with the cancellation.
\<close>

theorem stale_completion_discarded:
  "(currentOperationCallback m \<noteq> Some callback \<longrightarrow>
      step m (Done_registrationRequest request callback err body result pollingInterval)
        = (m, [], None) \<and>
      step m (Done_queryOperationStatus request callback err body result pollingInterval)
        = (m, [], None)) \<and>
   run init
     [Call_register request requestBody callback, Call_endSession callback',
      Done_registrationRequest request callback err body result pollingInterval]
     = (init\<lparr>targetReplayState := EndingSession, fsm_state := EndingSession\<rparr>,
        [Transport_registrationRequest request requestBody callback,
         CallCallback callback (Some (OperationCancelledError '''')) None None,
         Transport_endSession None None None callback'],
        None) \<and>
   run init
     [Call_register request requestBody callback, Call_endSession callback',
      Done_endSession None None None callback' disconnectErr,
      Done_registrationRequest request callback err body result pollingInterval]
     = (init,
        [Transport_registrationRequest request requestBody callback,
         CallCallback callback (Some (OperationCancelledError '''')) None None,
         Transport_endSession None None None callback',
         CallCallback callback' disconnectErr None None],
        None)"
  by (simp add: event_defs handler_defs init_def)

theorem stale_completion_discarded_witness:
  "currentOperationCallback (init\<lparr>fsm_state := Polling, currentOperationCallback := Some 7\<rparr>)
     \<noteq> Some 3 \<and>
   step (init\<lparr>fsm_state := Polling, currentOperationCallback := Some 7\<rparr>)
     (Done_registrationRequest 1 3 None None None 100)
     = (init\<lparr>fsm_state := Polling, currentOperationCallback := Some 7\<rparr>, [], None) \<and>
   step (init\<lparr>fsm_state := Polling, currentOperationCallback := Some 7\<rparr>)
     (Done_queryOperationStatus 1 3 None None None 100)
     = (init\<lparr>fsm_state := Polling, currentOperationCallback := Some 7\<rparr>, [], None)"
  using stale_completion_discarded
    [of "init\<lparr>fsm_state := Polling, currentOperationCallback := Some 7\<rparr>" 3 1 None None None
      100]
  by (simp add: init_def)

text \<open>
  C2. The happy path. From the initial machine: \<^verbatim>\<open>register\<close>; the registration request
  completes with no error, status "assigning", operation id "op1" and polling interval
  100; the timer of 100 fires; the status query completes with no error and status
  "assigned". The register callback is called with no error, the final body and the
  final result; exactly two \<^verbatim>\<open>operationStatus\<close> events are emitted, for the assigning body
  and then for the assigned body, the second one before the callback is called.
\<close>

theorem happy_path:
  assumes "status b1 = Some ''assigning''" and "operationId b1 = Some ''op1''"
    and "status b2 = Some ''assigned''"
  shows
    "run init
       [Call_register request requestBody callback,
        Done_registrationRequest request callback None (Some b1) result1 100,
        Fire_timer (request, Some ''op1'', 100, callback),
        Done_queryOperationStatus request callback None (Some b2) result2 pollingInterval]
     = (init\<lparr>targetReplayState := Idle, fsm_state := Idle,
          pollingTimer := Some (request, Some ''op1'', 100, callback)\<rparr>,
        [Transport_registrationRequest request requestBody callback,
         Emit_operationStatus b1,
         SetTimeout (request, Some ''op1'', 100, callback) 100,
         Transport_queryOperationStatus request (Some ''op1'') callback,
         Emit_operationStatus b2,
         CallCallback callback None (Some b2) result2],
        None) \<and>
     emitted (fst (snd (run init
       [Call_register request requestBody callback,
        Done_registrationRequest request callback None (Some b1) result1 100,
        Fire_timer (request, Some ''op1'', 100, callback),
        Done_queryOperationStatus request callback None (Some b2) result2 pollingInterval])))
     = [b1, b2]"
proof -
  let ?m1 = "init\<lparr>targetReplayState := SendingRegistrationRequest,
      fsm_state := SendingRegistrationRequest, currentOperationCallback := Some callback\<rparr>"
  let ?t = "(request, Some ''op1'', 100, callback)"
  let ?m2 = "?m1\<lparr>targetReplayState := WaitingToPoll, fsm_state := WaitingToPoll,
      pollingTimer := Some ?t\<rparr>"
  let ?m3 = "?m2\<lparr>targetReplayState := Polling, fsm_state := Polling\<rparr>"
  have s1: "step init (Call_register request requestBody callback)
      = (?m1, [Transport_registrationRequest request requestBody callback], None)"
    by (simp add: event_defs handler_defs init_def)
  have s2: "step ?m1 (Done_registrationRequest request callback None (Some b1) result1 100)
      = (?m2, [Emit_operationStatus b1, SetTimeout ?t 100], None)"
    using assms(1,2)
    by (simp add: event_defs handler_defs init_def lower_assigning)
  have s3: "step ?m2 (Fire_timer ?t)
      = (?m3, [Transport_queryOperationStatus request (Some ''op1'') callback], None)"
    by (simp add: event_defs handler_defs init_def)
  have s4: "step ?m3 (Done_queryOperationStatus request callback None (Some b2) result2
        pollingInterval)
      = (init\<lparr>targetReplayState := Idle, fsm_state := Idle, pollingTimer := Some ?t\<rparr>,
         [Emit_operationStatus b2, CallCallback callback None (Some b2) result2], None)"
    using assms(3)
    by (simp add: event_defs handler_defs init_def lower_assigned)
  have r: "run init
       [Call_register request requestBody callback,
        Done_registrationRequest request callback None (Some b1) result1 100,
        Fire_timer (request, Some ''op1'', 100, callback),
        Done_queryOperationStatus request callback None (Some b2) result2 pollingInterval]
     = (init\<lparr>targetReplayState := Idle, fsm_state := Idle,
          pollingTimer := Some (request, Some ''op1'', 100, callback)\<rparr>,
        [Transport_registrationRequest request requestBody callback,
         Emit_operationStatus b1,
         SetTimeout (request, Some ''op1'', 100, callback) 100,
         Transport_queryOperationStatus request (Some ''op1'') callback,
         Emit_operationStatus b2,
         CallCallback callback None (Some b2) result2],
        None)"
    by (simp only: run.simps s1 s2 s3 s4 prod.case simp_thms if_False append.simps)
  show ?thesis
    by (simp only: r fst_conv snd_conv emitted.simps simp_thms)
qed

theorem happy_path_witness:
  "run init
     [Call_register 1 2 3,
      Done_registrationRequest 1 3 None
        (Some \<lparr>status = Some ''assigning'', operationId = Some ''op1'', payload = 0\<rparr>)
        (Some 4) 100,
      Fire_timer (1, Some ''op1'', 100, 3),
      Done_queryOperationStatus 1 3 None
        (Some \<lparr>status = Some ''assigned'', operationId = Some ''op1'', payload = 5\<rparr>)
        (Some 6) 100]
   = (\<lparr>fsm_state = Idle, targetReplayState = Idle, inputQueue = [],
        currentOperationCallback = None, pollingTimer = Some (1, Some ''op1'', 100, 3)\<rparr>,
      [Transport_registrationRequest 1 2 3,
       Emit_operationStatus
         \<lparr>status = Some ''assigning'', operationId = Some ''op1'', payload = 0\<rparr>,
       SetTimeout (1, Some ''op1'', 100, 3) 100,
       Transport_queryOperationStatus 1 (Some ''op1'') 3,
       Emit_operationStatus
         \<lparr>status = Some ''assigned'', operationId = Some ''op1'', payload = 5\<rparr>,
       CallCallback 3 None
         (Some \<lparr>status = Some ''assigned'', operationId = Some ''op1'', payload = 5\<rparr>)
         (Some 6)],
      None)"
  using happy_path [of "\<lparr>status = Some ''assigning'', operationId = Some ''op1'', payload = 0\<rparr>"
      "\<lparr>status = Some ''assigned'', operationId = Some ''op1'', payload = 5\<rparr>"
      1 2 3 "Some 4" "Some 6" 100]
  by (simp add: init_def)

text \<open>
  C3. An attempt whose status query is answered without a transport error and without a
  status: the source calls \<^verbatim>\<open>toLowerCase\<close> on the missing status and a TypeError leaves the
  completion closure. The machine never enters \<^verbatim>\<open>endingSession\<close> or \<^verbatim>\<open>disconnected\<close>: it
  stays in \<^verbatim>\<open>responseReceived\<close>, where even \<^verbatim>\<open>endSession\<close> is only deferred, and the
  register callback is called zero times. The same attempt answered with a status string
  that is not known goes through \<^verbatim>\<open>endingSession\<close> to \<^verbatim>\<open>disconnected\<close>, and the register
  callback is called once, with the \<^verbatim>\<open>SyntaxError\<close>.
\<close>

theorem null_status_attempt_never_resolved:
  "run init
     [Call_register 1 2 3,
      Done_registrationRequest 1 3 None
        (Some \<lparr>status = Some ''assigning'', operationId = Some ''op1'', payload = 0\<rparr>)
        None 100,
      Fire_timer (1, Some ''op1'', 100, 3),
      Done_queryOperationStatus 1 3 None
        (Some \<lparr>status = None, operationId = Some ''op1'', payload = 0\<rparr>) None 100]
   = (\<lparr>fsm_state = ResponseReceived, targetReplayState = ResponseReceived,
        inputQueue = [], currentOperationCallback = Some 3,
        pollingTimer = Some (1, Some ''op1'', 100, 3)\<rparr>,
      [Transport_registrationRequest 1 2 3,
       Emit_operationStatus
         \<lparr>status = Some ''assigning'', operationId = Some ''op1'', payload = 0\<rparr>,
       SetTimeout (1, Some ''op1'', 100, 3) 100,
       Transport_queryOperationStatus 1 (Some ''op1'') 3],
      Some TypeError) \<and>
   resolutions 3
     [Transport_registrationRequest 1 2 3,
      Emit_operationStatus
        \<lparr>status = Some ''assigning'', operationId = Some ''op1'', payload = 0\<rparr>,
      SetTimeout (1, Some ''op1'', 100, 3) 100,
      Transport_queryOperationStatus 1 (Some ''op1'') 3] = 0 \<and>
   step \<lparr>fsm_state = ResponseReceived, targetReplayState = ResponseReceived,
          inputQueue = [], currentOperationCallback = Some 3,
          pollingTimer = Some (1, Some ''op1'', 100, 3)\<rparr>
        (Call_endSession 4)
   = (\<lparr>fsm_state = ResponseReceived, targetReplayState = ResponseReceived,
        inputQueue = [EndSession None None None 4], currentOperationCallback = Some 3,
        pollingTimer = Some (1, Some ''op1'', 100, 3)\<rparr>,
      [], None) \<and>
   run init
     [Call_register 1 2 3,
      Done_registrationRequest 1 3 None
        (Some \<lparr>status = Some ''assigning'', operationId = Some ''op1'', payload = 0\<rparr>)
        None 100,
      Fire_timer (1, Some ''op1'', 100, 3),
      Done_queryOperationStatus 1 3 None
        (Some \<lparr>status = Some ''unknown'', operationId = Some ''op1'', payload = 0\<rparr>)
        None 100,
      Done_endSession
        (Some (SyntaxError ''status is unknown'' None
           \<lparr>status = Some ''unknown'', operationId = Some ''op1'', payload = 0\<rparr>))
        (Some \<lparr>status = Some ''unknown'', operationId = Some ''op1'', payload = 0\<rparr>)
        None 3 None]
   = (\<lparr>fsm_state = Disconnected, targetReplayState = Disconnected, inputQueue = [],
        currentOperationCallback = None, pollingTimer = Some (1, Some ''op1'', 100, 3)\<rparr>,
      [Transport_registrationRequest 1 2 3,
       Emit_operationStatus
         \<lparr>status = Some ''assigning'', operationId = Some ''op1'', payload = 0\<rparr>,
       SetTimeout (1, Some ''op1'', 100, 3) 100,
       Transport_queryOperationStatus 1 (Some ''op1'') 3,
       Transport_endSession
         (Some (SyntaxError ''status is unknown'' None
            \<lparr>status = Some ''unknown'', operationId = Some ''op1'', payload = 0\<rparr>))
         (Some \<lparr>status = Some ''unknown'', operationId = Some ''op1'', payload = 0\<rparr>)
         None 3,
       CallCallback 3
         (Some (SyntaxError ''status is unknown'' None
            \<lparr>status = Some ''unknown'', operationId = Some ''op1'', payload = 0\<rparr>))
         (Some \<lparr>status = Some ''unknown'', operationId = Some ''op1'', payload = 0\<rparr>)
         None],
      None)"
  by (simp add: event_defs handler_defs init_def toLowerCase_def)

text \<open>
  C4. The classification of a response without a transport error, for the attempt in
  flight (in \<^verbatim>\<open>sendingRegistrationRequest\<close> or in \<^verbatim>\<open>polling\<close>, no input deferred). The
  status string is compared in lower case with three words. "assigned": the event is
  emitted and the register callback is called with no error, the body and the result.
  "assigning": the event is emitted and the machine waits to poll. "failed": the attempt
  fails with a \<^verbatim>\<open>DeviceRegistrationFailedError\<close> that carries the result and the body,
  delivered to the register callback when the session has ended. Any other string: the
  attempt fails in the same way with a \<^verbatim>\<open>SyntaxError\<close> that carries the result and the
  body, which is not an error object of the transport.
\<close>

theorem status_classification:
  assumes "currentOperationCallback m = Some callback" and "inputQueue m = []"
    and "fsm_state m \<in> {SendingRegistrationRequest, Polling}"
    and "ev = Done_registrationRequest request callback None (Some b) result pollingInterval \<or>
         ev = Done_queryOperationStatus request callback None (Some b) result pollingInterval"
    and "status b = Some s"
  shows
    "(toLowerCase s = ''assigned'' \<longrightarrow>
        step m ev
          = (m\<lparr>targetReplayState := Idle, fsm_state := Idle,
               currentOperationCallback := None\<rparr>,
             [Emit_operationStatus b, CallCallback callback None (Some b) result], None)) \<and>
     (toLowerCase s = ''assigning'' \<longrightarrow>
        step m ev
          = (m\<lparr>targetReplayState := WaitingToPoll, fsm_state := WaitingToPoll,
               pollingTimer := Some (request, operationId b, pollingInterval, callback)\<rparr>,
             [Emit_operationStatus b,
              SetTimeout (request, operationId b, pollingInterval, callback) pollingInterval],
             None)) \<and>
     (toLowerCase s = ''failed'' \<longrightarrow>
        run m [ev,
               Done_endSession
                 (Some (DeviceRegistrationFailedError ''registration failed'' result b))
                 (Some b) result callback disconnectErr]
          = (m\<lparr>targetReplayState := Disconnected, fsm_state := Disconnected,
               currentOperationCallback := None\<rparr>,
             [Transport_endSession
                (Some (DeviceRegistrationFailedError ''registration failed'' result b))
                (Some b) result callback,
              CallCallback callback
                (Some (DeviceRegistrationFailedError ''registration failed'' result b))
                (Some b) result],
             None)) \<and>
     (toLowerCase s \<notin> {''assigned'', ''assigning'', ''failed''} \<longrightarrow>
        run m [ev,
               Done_endSession (Some (SyntaxError (''status is '' @ s) result b))
                 (Some b) result callback disconnectErr]
          = (m\<lparr>targetReplayState := Disconnected, fsm_state := Disconnected,
               currentOperationCallback := None\<rparr>,
             [Transport_endSession (Some (SyntaxError (''status is '' @ s) result b))
                (Some b) result callback,
              CallCallback callback (Some (SyntaxError (''status is '' @ s) result b))
                (Some b) result],
             None) \<and>
        (\<forall>n. SyntaxError (''status is '' @ s) result b \<noteq> TransportError n))"
proof -
  let ?ending = "m\<lparr>targetReplayState := EndingSession, fsm_state := EndingSession,
      currentOperationCallback := None\<rparr>"
  have t: "step m ev = exec
      [Transition (Enter_responseReceived None request (Some b) result pollingInterval callback)]
      [] m"
    using assms(1,4) by (auto simp: event_defs handler_defs)
  have assigned: "step m ev
      = (m\<lparr>targetReplayState := Idle, fsm_state := Idle, currentOperationCallback := None\<rparr>,
         [Emit_operationStatus b, CallCallback callback None (Some b) result], None)"
    if "toLowerCase s = ''assigned''"
    using assms(2,3,5) that by (auto simp: t handler_defs)
  have assigning: "step m ev
      = (m\<lparr>targetReplayState := WaitingToPoll, fsm_state := WaitingToPoll,
           pollingTimer := Some (request, operationId b, pollingInterval, callback)\<rparr>,
         [Emit_operationStatus b,
          SetTimeout (request, operationId b, pollingInterval, callback) pollingInterval],
         None)"
    if "toLowerCase s = ''assigning''"
    using assms(2,3,5) that by (auto simp: t handler_defs)
  have failed: "step m ev
      = (?ending,
         [Transport_endSession
            (Some (DeviceRegistrationFailedError ''registration failed'' result b))
            (Some b) result callback], None)"
    if "toLowerCase s = ''failed''"
    using assms(2,3,5) that by (auto simp: t handler_defs)
  have other: "step m ev
      = (?ending,
         [Transport_endSession (Some (SyntaxError (''status is '' @ s) result b))
            (Some b) result callback], None)"
    if "toLowerCase s \<notin> {''assigned'', ''assigning'', ''failed''}"
    using assms(2,3,5) that by (auto simp: t handler_defs)
  have ended: "step ?ending (Done_endSession (Some e) (Some b) result callback disconnectErr)
      = (m\<lparr>targetReplayState := Disconnected, fsm_state := Disconnected,
           currentOperationCallback := None\<rparr>,
         [CallCallback callback (Some e) (Some b) result], None)" for e
    using assms(2) by (simp add: event_defs handler_defs)
  have two: "run m [ev, ev'] = (m2, out1 @ out2, None)"
    if "step m ev = (m1, out1, None)" and "step m1 ev' = (m2, out2, None)"
    for ev' m1 m2 out1 out2
    using that by simp
  show ?thesis
    using assigned assigning two[OF failed ended] two[OF other ended]
    by simp
qed

theorem status_classification_witness:
  "step (init\<lparr>fsm_state := SendingRegistrationRequest, currentOperationCallback := Some 3\<rparr>)
     (Done_registrationRequest 1 3 None
        (Some \<lparr>status = Some ''ASSIGNED'', operationId = None, payload = 0\<rparr>) (Some 5) 100)
   = (init\<lparr>targetReplayState := Idle, fsm_state := Idle\<rparr>,
      [Emit_operationStatus \<lparr>status = Some ''ASSIGNED'', operationId = None, payload = 0\<rparr>,
       CallCallback 3 None
         (Some \<lparr>status = Some ''ASSIGNED'', operationId = None, payload = 0\<rparr>) (Some 5)],
      None) \<and>
   step (init\<lparr>fsm_state := Polling, currentOperationCallback := Some 3\<rparr>)
     (Done_queryOperationStatus 1 3 None
        (Some \<lparr>status = Some ''Assigning'', operationId = Some ''op1'', payload = 0\<rparr>)
        (Some 5) 100)
   = (init\<lparr>targetReplayState := WaitingToPoll, fsm_state := WaitingToPoll,
        currentOperationCallback := Some 3,
        pollingTimer := Some (1, Some ''op1'', 100, 3)\<rparr>,
      [Emit_operationStatus
         \<lparr>status = Some ''Assigning'', operationId = Some ''op1'', payload = 0\<rparr>,
       SetTimeout (1, Some ''op1'', 100, 3) 100],
      None) \<and>
   run (init\<lparr>fsm_state := Polling, currentOperationCallback := Some 3\<rparr>)
     [Done_queryOperationStatus 1 3 None
        (Some \<lparr>status = Some ''Failed'', operationId = None, payload = 0\<rparr>) None 100,
      Done_endSession
        (Some (DeviceRegistrationFailedError ''registration failed'' None
           \<lparr>status = Some ''Failed'', operationId = None, payload = 0\<rparr>))
        (Some \<lparr>status = Some ''Failed'', operationId = None, payload = 0\<rparr>) None 3 None]
   = (init,
      [Transport_endSession
        (Some (DeviceRegistrationFailedError ''registration failed'' None
           \<lparr>status = Some ''Failed'', operationId = None, payload = 0\<rparr>))
        (Some \<lparr>status = Some ''Failed'', operationId = None, payload = 0\<rparr>) None 3,
       CallCallback 3
        (Some (DeviceRegistrationFailedError ''registration failed'' None
           \<lparr>status = Some ''Failed'', operationId = None, payload = 0\<rparr>))
        (Some \<lparr>status = Some ''Failed'', operationId = None, payload = 0\<rparr>) None],
      None) \<and>
   run (init\<lparr>fsm_state := SendingRegistrationRequest, currentOperationCallback := Some 3\<rparr>)
     [Done_registrationRequest 1 3 None
        (Some \<lparr>status = Some ''unassigned'', operationId = None, payload = 0\<rparr>) None 100,
      Done_endSession
        (Some (SyntaxError ''status is unassigned'' None
           \<lparr>status = Some ''unassigned'', operationId = None, payload = 0\<rparr>))
        (Some \<lparr>status = Some ''unassigned'', operationId = None, payload = 0\<rparr>) None 3
        None]
   = (init,
      [Transport_endSession
        (Some (SyntaxError ''status is unassigned'' None
           \<lparr>status = Some ''unassigned'', operationId = None, payload = 0\<rparr>))
        (Some \<lparr>status = Some ''unassigned'', operationId = None, payload = 0\<rparr>) None 3,
       CallCallback 3
        (Some (SyntaxError ''status is unassigned'' None
           \<lparr>status = Some ''unassigned'', operationId = None, payload = 0\<rparr>))
        (Some \<lparr>status = Some ''unassigned'', operationId = None, payload = 0\<rparr>) None],
      None)"
  using
    status_classification
      [of "init\<lparr>fsm_state := SendingRegistrationRequest, currentOperationCallback := Some 3\<rparr>"
        3 "Done_registrationRequest 1 3 None
            (Some \<lparr>status = Some ''ASSIGNED'', operationId = None, payload = 0\<rparr>) (Some 5) 100"
        1 "\<lparr>status = Some ''ASSIGNED'', operationId = None, payload = 0\<rparr>" "Some 5" 100
        "''ASSIGNED''" None]
    status_classification
      [of "init\<lparr>fsm_state := Polling, currentOperationCallback := Some 3\<rparr>"
        3 "Done_queryOperationStatus 1 3 None
            (Some \<lparr>status = Some ''Assigning'', operationId = Some ''op1'', payload = 0\<rparr>)
            (Some 5) 100"
        1 "\<lparr>status = Some ''Assigning'', operationId = Some ''op1'', payload = 0\<rparr>"
        "Some 5" 100 "''Assigning''" None]
    status_classification
      [of "init\<lparr>fsm_state := Polling, currentOperationCallback := Some 3\<rparr>"
        3 "Done_queryOperationStatus 1 3 None
            (Some \<lparr>status = Some ''Failed'', operationId = None, payload = 0\<rparr>) None 100"
        1 "\<lparr>status = Some ''Failed'', operationId = None, payload = 0\<rparr>" None 100
        "''Failed''" None]
    status_classification
      [of "init\<lparr>fsm_state := SendingRegistrationRequest, currentOperationCallback := Some 3\<rparr>"
        3 "Done_registrationRequest 1 3 None
            (Some \<lparr>status = Some ''unassigned'', operationId = None, payload = 0\<rparr>) None 100"
        1 "\<lparr>status = Some ''unassigned'', operationId = None, payload = 0\<rparr>" None 100
        "''unassigned''" None]
  by (simp add: init_def toLowerCase_def del: run.simps)

text \<open>
  C5. \<^verbatim>\<open>register\<close> while the machine is in \<^verbatim>\<open>sendingRegistrationRequest\<close>, \<^verbatim>\<open>waitingToPoll\<close>
  or \<^verbatim>\<open>polling\<close>: the callback of the new call is called at once with an
  \<^verbatim>\<open>InvalidOperationError\<close>, and the machine (its state, current operation callback, timer
  and queue) is unchanged, so whatever events follow have the outcome they would have
  had without the rejected call.
\<close>

theorem register_in_flight_rejected:
  assumes "fsm_state m \<in> {SendingRegistrationRequest, WaitingToPoll, Polling}"
  shows
    "step m (Call_register request requestBody callback)
       = (m, [CallCallback callback
                (Some (InvalidOperationError ''another operation is in progress''))
                None None], None) \<and>
     (\<forall>es. run m (Call_register request requestBody callback # es)
       = (case run m es of
            (m', out, thrown) \<Rightarrow>
              (m', CallCallback callback
                     (Some (InvalidOperationError ''another operation is in progress''))
                     None None # out, thrown)))"
proof -
  have s: "step m (Call_register request requestBody callback)
       = (m, [CallCallback callback
                (Some (InvalidOperationError ''another operation is in progress''))
                None None], None)"
    using assms
    by (auto simp: event_defs handler_defs)
  show ?thesis
    using run_Cons_same[OF s] s by simp
qed

theorem register_in_flight_rejected_witness:
  "step (init\<lparr>fsm_state := Polling, currentOperationCallback := Some 3\<rparr>)
       (Call_register 7 8 9)
     = (init\<lparr>fsm_state := Polling, currentOperationCallback := Some 3\<rparr>,
        [CallCallback 9 (Some (InvalidOperationError ''another operation is in progress''))
           None None], None)"
  using register_in_flight_rejected
    [of "init\<lparr>fsm_state := Polling, currentOperationCallback := Some 3\<rparr>" 7 8 9]
  by simp

text \<open>
  C6, as stated, fails: the callback of \<^verbatim>\<open>endSession\<close> does receive an error, the one that
  the transport's \<^verbatim>\<open>endSession\<close> reports. Here \<^verbatim>\<open>endSession\<close> (callback 4) cancels the attempt
  of callback 3, and the transport ends the session with an error.
\<close>

theorem endSession_callback_gets_disconnect_error:
  "run init
     [Call_register 1 2 3, Call_endSession 4,
      Done_endSession None None None 4 (Some (TransportError 5))]
   = (init,
      [Transport_registrationRequest 1 2 3,
       CallCallback 3 (Some (OperationCancelledError '''')) None None,
       Transport_endSession None None None 4,
       CallCallback 4 (Some (TransportError 5)) None None],
      None)"
  by (simp add: event_defs handler_defs init_def)

text \<open>
  C6, amended. Every call of \<^verbatim>\<open>endSession\<close>, as an event of its own, from inside a callback
  or a listener, or replayed from the queue, is an input handled by the machine in the
  state it is in, whatever is deferred and whatever else is still to run:
  \<^item> in \<^verbatim>\<open>disconnected\<close> its callback is called at once, with no error, and the transport
    is not called;
  \<^item> in \<^verbatim>\<open>idle\<close>, \<^verbatim>\<open>sendingRegistrationRequest\<close>, \<^verbatim>\<open>waitingToPoll\<close> and \<^verbatim>\<open>polling\<close> the timer
    is cleared if the machine waits to poll, the callback of the attempt in flight, if
    there is one, is called with an \<^verbatim>\<open>OperationCancelledError\<close>, and then the transport's
    \<^verbatim>\<open>endSession\<close> is called on behalf of the caller's callback;
  \<^item> when that call of the transport completes, the caller's callback is called with
    the error the transport reports, which is no error when it reports none;
  \<^item> in \<^verbatim>\<open>endingSession\<close>, \<^verbatim>\<open>responseReceived\<close>, \<^verbatim>\<open>responseComplete\<close> and
    \<^verbatim>\<open>responseError\<close> the call is deferred; the transition that completes next takes the
    deferred inputs out of the queue and handles each again, in the state the machine is
    in by then.
  So an \<^verbatim>\<open>endSession\<close> deferred first during a teardown is handled in \<^verbatim>\<open>disconnected\<close>, with
  no error, when the callback of that teardown calls nothing; when that callback starts a
  new attempt, the deferred \<^verbatim>\<open>endSession\<close> cancels it and ends the session once more.
\<close>

theorem endSession_resolution:
  "(fsm_state m = Disconnected \<longrightarrow>
      exec (Handle (EndSession err body result callback') # todo) rs m
        = exec (Effect (CallCallback callback' None None None) # todo) rs m) \<and>
   (fsm_state m \<in> {Idle, SendingRegistrationRequest, WaitingToPoll, Polling} \<longrightarrow>
      exec (Handle (EndSession err body result callback') # todo) rs m
        = exec
            ((if fsm_state m = WaitingToPoll then [Effect (ClearTimeout (pollingTimer m))]
              else []) @
             (case currentOperationCallback m of
                Some cb \<Rightarrow>
                  [Effect (CallCallback cb (Some (OperationCancelledError '''')) None None)]
              | None \<Rightarrow> []) @
             [Effect (Transport_endSession err body result callback'),
              ProcessQueue EndingSession] @ todo)
            rs
            (m\<lparr>targetReplayState := EndingSession, fsm_state := EndingSession,
               currentOperationCallback := None,
               pollingTimer :=
                 (if fsm_state m = WaitingToPoll then None else pollingTimer m)\<rparr>)) \<and>
   (fsm_state m \<in> {EndingSession, ResponseReceived, ResponseComplete, ResponseError} \<longrightarrow>
      exec (Handle (EndSession err body result callback') # todo) rs m
        = exec todo rs
            (m\<lparr>inputQueue := inputQueue m @ [EndSession err body result callback']\<rparr>)) \<and>
   (fsm_state m \<noteq> Disconnected \<longrightarrow>
      exec (Run (Done_endSession None None None callback' disconnectErr) # todo) rs m
        = exec (Effect (CallCallback callback' disconnectErr None None) #
                ProcessQueue Disconnected # todo)
            rs
            (m\<lparr>targetReplayState := Disconnected, fsm_state := Disconnected,
               currentOperationCallback := None\<rparr>)) \<and>
   exec (ProcessQueue s # todo) rs m
     = (if targetReplayState m = s
        then exec (map Handle (inputQueue m) @ todo) rs (m\<lparr>inputQueue := []\<rparr>)
        else exec todo rs m) \<and>
   (fsm_state m = EndingSession \<and>
    inputQueue m = EndSession err body result callback' # queue \<longrightarrow>
      step_with ([] # rs) m (Done_endSession err' body' result' callback disconnectErr)
        = logged (CallCallback callback (or_else err' disconnectErr) body' result')
            (exec (Effect (CallCallback callback' None None None) # map Handle queue) rs
               (m\<lparr>targetReplayState := Disconnected, fsm_state := Disconnected,
                  currentOperationCallback := None, inputQueue := []\<rparr>)))"
proof (intro conjI impI)
  assume "fsm_state m = Disconnected"
  then show "exec (Handle (EndSession err body result callback') # todo) rs m
        = exec (Effect (CallCallback callback' None None None) # todo) rs m"
    by (simp add: exec_Handle body_defs del: exec.simps)
next
  assume "fsm_state m \<in> {Idle, SendingRegistrationRequest, WaitingToPoll, Polling}"
  then show "exec (Handle (EndSession err body result callback') # todo) rs m
        = exec
            ((if fsm_state m = WaitingToPoll then [Effect (ClearTimeout (pollingTimer m))]
              else []) @
             (case currentOperationCallback m of
                Some cb \<Rightarrow>
                  [Effect (CallCallback cb (Some (OperationCancelledError '''')) None None)]
              | None \<Rightarrow> []) @
             [Effect (Transport_endSession err body result callback'),
              ProcessQueue EndingSession] @ todo)
            rs
            (m\<lparr>targetReplayState := EndingSession, fsm_state := EndingSession,
               currentOperationCallback := None,
               pollingTimer :=
                 (if fsm_state m = WaitingToPoll then None else pollingTimer m)\<rparr>)"
    by (auto simp: exec_Handle exec_Transition exec_plain body_defs simp del: exec.simps
        split: option.splits intro!: exec_same_machine logged_cong)
next
  assume "fsm_state m \<in> {EndingSession, ResponseReceived, ResponseComplete, ResponseError}"
  then show "exec (Handle (EndSession err body result callback') # todo) rs m
        = exec todo rs
            (m\<lparr>inputQueue := inputQueue m @ [EndSession err body result callback']\<rparr>)"
    by (auto simp: exec_Handle body_defs simp del: exec.simps)
next
  assume "fsm_state m \<noteq> Disconnected"
  then show "exec (Run (Done_endSession None None None callback' disconnectErr) # todo) rs m
        = exec (Effect (CallCallback callback' disconnectErr None None) #
                ProcessQueue Disconnected # todo)
            rs
            (m\<lparr>targetReplayState := Disconnected, fsm_state := Disconnected,
               currentOperationCallback := None\<rparr>)"
    by (simp add: exec_Run exec_Transition body_defs del: exec.simps)
next
  show "exec (ProcessQueue s # todo) rs m
     = (if targetReplayState m = s
        then exec (map Handle (inputQueue m) @ todo) rs (m\<lparr>inputQueue := []\<rparr>)
        else exec todo rs m)"
    by (simp add: exec_ProcessQueue body_defs del: exec.simps)
next
  assume "fsm_state m = EndingSession \<and>
    inputQueue m = EndSession err body result callback' # queue"
  then show "step_with ([] # rs) m
        (Done_endSession err' body' result' callback disconnectErr)
        = logged (CallCallback callback (or_else err' disconnectErr) body' result')
            (exec (Effect (CallCallback callback' None None None) # map Handle queue) rs
               (m\<lparr>targetReplayState := Disconnected, fsm_state := Disconnected,
                  currentOperationCallback := None, inputQueue := []\<rparr>))"
    by (simp add: step_with_def exec_Run exec_Transition exec_ProcessQueue exec_Handle
        exec_called body_defs del: exec.simps)
qed

theorem endSession_resolution_witness:
  "exec [Handle (EndSession None None None 4)] [] init
     = (init, [CallCallback 4 None None None], None) \<and>
   exec [Handle (EndSession None None None 4)] []
       (init\<lparr>fsm_state := Polling, currentOperationCallback := Some 3\<rparr>)
     = (init\<lparr>targetReplayState := EndingSession, fsm_state := EndingSession\<rparr>,
        [CallCallback 3 (Some (OperationCancelledError '''')) None None,
         Transport_endSession None None None 4], None) \<and>
   exec [Run (Done_endSession None None None 4 (Some (TransportError 5)))] []
       (init\<lparr>targetReplayState := EndingSession, fsm_state := EndingSession\<rparr>)
     = (init, [CallCallback 4 (Some (TransportError 5)) None None], None) \<and>
   exec [Handle (EndSession None None None 8)] []
       (init\<lparr>targetReplayState := EndingSession, fsm_state := EndingSession\<rparr>)
     = (init\<lparr>targetReplayState := EndingSession, fsm_state := EndingSession,
          inputQueue := [EndSession None None None 8]\<rparr>, [], None) \<and>
   step_with [[Call_register 5 6 7]]
       (init\<lparr>targetReplayState := EndingSession, fsm_state := EndingSession,
          inputQueue := [EndSession None None None 8]\<rparr>)
       (Done_endSession None None None 4 (Some (TransportError 5)))
     = (init\<lparr>targetReplayState := EndingSession, fsm_state := EndingSession\<rparr>,
        [CallCallback 4 (Some (TransportError 5)) None None,
         Transport_registrationRequest 5 6 7,
         CallCallback 7 (Some (OperationCancelledError '''')) None None,
         Transport_endSession None None None 8], None)"
  using endSession_resolution
      [where m = init and err = None and body = None and result = None and callback' = 4
        and todo = "[]" and rs = "[]"]
    endSession_resolution
      [where m = "init\<lparr>fsm_state := Polling, currentOperationCallback := Some 3\<rparr>"
        and err = None and body = None and result = None and callback' = 4
        and todo = "[]" and rs = "[]"]
    endSession_resolution
      [where m = "init\<lparr>targetReplayState := EndingSession, fsm_state := EndingSession\<rparr>"
        and err = None and body = None and result = None and callback' = 4
        and disconnectErr = "Some (TransportError 5)" and todo = "[]" and rs = "[]"]
  by (simp add: init_def handler_defs step_with_def)

text \<open>
  C7. The transition from \<^verbatim>\<open>endingSession\<close> to \<^verbatim>\<open>disconnected\<close>, when the transport's
  \<^verbatim>\<open>endSession\<close> completes: the callback carried through the teardown is called first,
  with the carried error when there is one, whatever the transport reports, and with the
  transport's disconnect error only when no error is carried. What follows is the replay
  of the deferred inputs from the disconnected machine.
\<close>

theorem disconnect_error_does_not_override:
  assumes "fsm_state m = EndingSession"
  shows
    "step m (Done_endSession (Some e) body result callback disconnectErr)
       = (case drain (inputQueue m)
                (m\<lparr>targetReplayState := Disconnected, fsm_state := Disconnected,
                   currentOperationCallback := None, inputQueue := []\<rparr>) of
            (m2, out2, thrown2) \<Rightarrow>
              (m2, CallCallback callback (Some e) body result # out2, thrown2)) \<and>
     step m (Done_endSession None body result callback disconnectErr)
       = (case drain (inputQueue m)
                (m\<lparr>targetReplayState := Disconnected, fsm_state := Disconnected,
                   currentOperationCallback := None, inputQueue := []\<rparr>) of
            (m2, out2, thrown2) \<Rightarrow>
              (m2, CallCallback callback disconnectErr body result # out2, thrown2))"
  using assms
  by (simp add: event_defs handler_defs)

theorem disconnect_error_does_not_override_witness:
  "step (init\<lparr>fsm_state := EndingSession\<rparr>)
     (Done_endSession (Some (TransportError 1)) None None 3 (Some (TransportError 2)))
   = (init, [CallCallback 3 (Some (TransportError 1)) None None], None)"
  using disconnect_error_does_not_override
    [of "init\<lparr>fsm_state := EndingSession\<rparr>" "TransportError 1" None None 3
      "Some (TransportError 2)"]
  by (simp add: init_def drain_def)

text \<open>
  C8. A response without a transport error whose body has no status. The source calls
  \<^verbatim>\<open>toLowerCase\<close> on the missing status: a TypeError leaves the completion closure, the
  machine stays in \<^verbatim>\<open>responseReceived\<close> with the operation callback still set, and the
  register callback is not called. The unknown-status branch is not reached.
\<close>

theorem null_status_throws:
  "run init
     [Call_register 1 2 3,
      Done_registrationRequest 1 3 None
        (Some \<lparr>status = None, operationId = None, payload = 0\<rparr>) None 0]
   = (init\<lparr>targetReplayState := ResponseReceived, fsm_state := ResponseReceived,
        currentOperationCallback := Some 3\<rparr>,
      [Transport_registrationRequest 1 2 3], Some TypeError)"
  by (simp add: event_defs handler_defs init_def)




text \<open>
  C10, as stated, fails: a \<^verbatim>\<open>register\<close> called in \<^verbatim>\<open>responseReceived\<close> is rejected with an
  \<^verbatim>\<open>InvalidOperationError\<close> after all. A listener of \<^verbatim>\<open>operationStatus\<close>, called while a
  response with status "assigning" is classified, calls \<^verbatim>\<open>register\<close> with callback 7: the
  call is deferred, replayed when the machine has entered \<^verbatim>\<open>waitingToPoll\<close>, and rejected
  there.
\<close>

theorem replayed_register_rejected:
  "run_with init
     [(Call_register 1 2 3, []),
      (Done_registrationRequest 1 3 None
         (Some \<lparr>status = Some ''assigning'', operationId = Some ''op1'', payload = 0\<rparr>)
         None 100,
       [[Call_register 5 6 7]])]
   = (\<lparr>fsm_state = WaitingToPoll, targetReplayState = WaitingToPoll, inputQueue = [],
        currentOperationCallback = Some 3, pollingTimer = Some (1, Some ''op1'', 100, 3)\<rparr>,
      [Transport_registrationRequest 1 2 3,
       Emit_operationStatus
         \<lparr>status = Some ''assigning'', operationId = Some ''op1'', payload = 0\<rparr>,
       SetTimeout (1, Some ''op1'', 100, 3) 100,
       CallCallback 7 (Some (InvalidOperationError ''another operation is in progress''))
         None None],
      None)"
  by (simp add: event_defs handler_defs init_def toLowerCase_def)

text \<open>
  C10, amended. A \<^verbatim>\<open>register\<close> called while the machine is in \<^verbatim>\<open>endingSession\<close>,
  \<^verbatim>\<open>responseReceived\<close>, \<^verbatim>\<open>responseComplete\<close> or \<^verbatim>\<open>responseError\<close> is not rejected when it is
  called: nothing is called and the input goes to the end of the queue. The transition
  that completes next takes the deferred inputs out of the queue and handles each again,
  in the state the machine is in by then: a \<^verbatim>\<open>register\<close> starts a new attempt in
  \<^verbatim>\<open>disconnected\<close> and \<^verbatim>\<open>idle\<close>, is rejected with an \<^verbatim>\<open>InvalidOperationError\<close> in
  \<^verbatim>\<open>sendingRegistrationRequest\<close>, \<^verbatim>\<open>waitingToPoll\<close> and \<^verbatim>\<open>polling\<close>, and is deferred again
  in the four states above. So a \<^verbatim>\<open>register\<close> that a listener calls during the
  classification of an "assigning" response is rejected on replay in \<^verbatim>\<open>waitingToPoll\<close>,
  and one called while an "assigned" response is completed starts a new attempt from
  \<^verbatim>\<open>idle\<close>. A \<^verbatim>\<open>register\<close> deferred first during \<^verbatim>\<open>endingSession\<close> is replayed when the
  transport's \<^verbatim>\<open>endSession\<close> completes and the machine has entered \<^verbatim>\<open>disconnected\<close>, and
  starts a new attempt, when the callback of the teardown calls nothing.
\<close>

theorem register_deferred_then_replayed:
  "(fsm_state m \<in> {EndingSession, ResponseReceived, ResponseComplete, ResponseError} \<longrightarrow>
      exec (Handle (Register request requestBody callback) # todo) rs m
        = exec todo rs
            (m\<lparr>inputQueue := inputQueue m @ [Register request requestBody callback]\<rparr>) \<and>
      step_with rs m (Call_register request requestBody callback)
        = (m\<lparr>inputQueue := inputQueue m @ [Register request requestBody callback]\<rparr>,
           [], None)) \<and>
   exec (ProcessQueue s # todo) rs m
     = (if targetReplayState m = s
        then exec (map Handle (inputQueue m) @ todo) rs (m\<lparr>inputQueue := []\<rparr>)
        else exec todo rs m) \<and>
   (fsm_state m \<in> {Disconnected, Idle} \<longrightarrow>
      exec (Handle (Register request requestBody callback) # todo) rs m
        = exec (Effect (Transport_registrationRequest request requestBody callback) #
                ProcessQueue SendingRegistrationRequest # todo)
            rs
            (m\<lparr>targetReplayState := SendingRegistrationRequest,
               fsm_state := SendingRegistrationRequest,
               currentOperationCallback := Some callback\<rparr>)) \<and>
   (fsm_state m \<in> {SendingRegistrationRequest, WaitingToPoll, Polling} \<longrightarrow>
      exec (Handle (Register request requestBody callback) # todo) rs m
        = exec (Effect (CallCallback callback
                  (Some (InvalidOperationError ''another operation is in progress''))
                  None None) # todo)
            rs m) \<and>
   (fsm_state m \<in> {SendingRegistrationRequest, Polling} \<and>
    currentOperationCallback m = Some callback' \<and> inputQueue m = [] \<and>
    (ev = Done_registrationRequest request' callback' None (Some b) result pollingInterval \<or>
     ev = Done_queryOperationStatus request' callback' None (Some b) result pollingInterval) \<and>
    status b = Some st \<longrightarrow>
      (toLowerCase st = ''assigning'' \<longrightarrow>
         step_with [[Call_register request requestBody callback]] m ev
           = (m\<lparr>targetReplayState := WaitingToPoll, fsm_state := WaitingToPoll,
                pollingTimer := Some (request', operationId b, pollingInterval, callback')\<rparr>,
              [Emit_operationStatus b,
               SetTimeout (request', operationId b, pollingInterval, callback')
                 pollingInterval,
               CallCallback callback
                 (Some (InvalidOperationError ''another operation is in progress''))
                 None None],
              None)) \<and>
      (toLowerCase st = ''assigned'' \<longrightarrow>
         step_with [[Call_register request requestBody callback]] m ev
           = (m\<lparr>targetReplayState := SendingRegistrationRequest,
                fsm_state := SendingRegistrationRequest,
                currentOperationCallback := Some callback\<rparr>,
              [Emit_operationStatus b, CallCallback callback' None (Some b) result,
               Transport_registrationRequest request requestBody callback],
              None))) \<and>
   (fsm_state m = EndingSession \<and>
    inputQueue m = Register request requestBody callback # queue \<longrightarrow>
      step_with ([] # rs) m (Done_endSession err body result callback' disconnectErr)
        = preceded
            [CallCallback callback' (or_else err disconnectErr) body result,
             Transport_registrationRequest request requestBody callback]
            (exec (map Handle queue) rs
               (m\<lparr>targetReplayState := SendingRegistrationRequest,
                  fsm_state := SendingRegistrationRequest,
                  currentOperationCallback := Some callback, inputQueue := []\<rparr>))) \<and>
   (fsm_state m = EndingSession \<and> inputQueue m = [] \<longrightarrow>
      run m [Call_register request requestBody callback,
             Done_endSession err body result callback' disconnectErr]
        = (m\<lparr>targetReplayState := SendingRegistrationRequest,
             fsm_state := SendingRegistrationRequest,
             currentOperationCallback := Some callback, inputQueue := []\<rparr>,
           [CallCallback callback' (or_else err disconnectErr) body result,
            Transport_registrationRequest request requestBody callback],
           None))"
proof (intro conjI impI)
  assume a: "fsm_state m \<in> {EndingSession, ResponseReceived, ResponseComplete, ResponseError}"
  then show "exec (Handle (Register request requestBody callback) # todo) rs m
        = exec todo rs
            (m\<lparr>inputQueue := inputQueue m @ [Register request requestBody callback]\<rparr>)"
    by (auto simp: exec_Handle body_defs simp del: exec.simps)
  from a show "step_with rs m (Call_register request requestBody callback)
        = (m\<lparr>inputQueue := inputQueue m @ [Register request requestBody callback]\<rparr>,
           [], None)"
    by (auto simp: step_with_def body_defs)
next
  show "exec (ProcessQueue s # todo) rs m
     = (if targetReplayState m = s
        then exec (map Handle (inputQueue m) @ todo) rs (m\<lparr>inputQueue := []\<rparr>)
        else exec todo rs m)"
    by (simp add: exec_ProcessQueue body_defs del: exec.simps)
next
  assume "fsm_state m \<in> {Disconnected, Idle}"
  then show "exec (Handle (Register request requestBody callback) # todo) rs m
        = exec (Effect (Transport_registrationRequest request requestBody callback) #
                ProcessQueue SendingRegistrationRequest # todo)
            rs
            (m\<lparr>targetReplayState := SendingRegistrationRequest,
               fsm_state := SendingRegistrationRequest,
               currentOperationCallback := Some callback\<rparr>)"
    by (auto simp: exec_Handle exec_Transition body_defs simp del: exec.simps)
next
  assume "fsm_state m \<in> {SendingRegistrationRequest, WaitingToPoll, Polling}"
  then show "exec (Handle (Register request requestBody callback) # todo) rs m
        = exec (Effect (CallCallback callback
                  (Some (InvalidOperationError ''another operation is in progress''))
                  None None) # todo)
            rs m"
    by (auto simp: exec_Handle body_defs simp del: exec.simps)
next
  assume a: "fsm_state m \<in> {SendingRegistrationRequest, Polling} \<and>
    currentOperationCallback m = Some callback' \<and> inputQueue m = [] \<and>
    (ev = Done_registrationRequest request' callback' None (Some b) result pollingInterval \<or>
     ev = Done_queryOperationStatus request' callback' None (Some b) result pollingInterval) \<and>
    status b = Some st"
    and b: "toLowerCase st = ''assigning''"
  then show "step_with [[Call_register request requestBody callback]] m ev
           = (m\<lparr>targetReplayState := WaitingToPoll, fsm_state := WaitingToPoll,
                pollingTimer := Some (request', operationId b, pollingInterval, callback')\<rparr>,
              [Emit_operationStatus b,
               SetTimeout (request', operationId b, pollingInterval, callback')
                 pollingInterval,
               CallCallback callback
                 (Some (InvalidOperationError ''another operation is in progress''))
                 None None],
              None)"
    by (auto simp: step_with_def handler_defs intro!: machine.equality)
next
  assume a: "fsm_state m \<in> {SendingRegistrationRequest, Polling} \<and>
    currentOperationCallback m = Some callback' \<and> inputQueue m = [] \<and>
    (ev = Done_registrationRequest request' callback' None (Some b) result pollingInterval \<or>
     ev = Done_queryOperationStatus request' callback' None (Some b) result pollingInterval) \<and>
    status b = Some st"
    and b: "toLowerCase st = ''assigned''"
  then show "step_with [[Call_register request requestBody callback]] m ev
           = (m\<lparr>targetReplayState := SendingRegistrationRequest,
                fsm_state := SendingRegistrationRequest,
                currentOperationCallback := Some callback\<rparr>,
              [Emit_operationStatus b, CallCallback callback' None (Some b) result,
               Transport_registrationRequest request requestBody callback],
              None)"
    by (auto simp: step_with_def handler_defs intro!: machine.equality)
next
  assume "fsm_state m = EndingSession \<and>
    inputQueue m = Register request requestBody callback # queue"
  then show "step_with ([] # rs) m
        (Done_endSession err body result callback' disconnectErr)
        = preceded
            [CallCallback callback' (or_else err disconnectErr) body result,
             Transport_registrationRequest request requestBody callback]
            (exec (map Handle queue) rs
               (m\<lparr>targetReplayState := SendingRegistrationRequest,
                  fsm_state := SendingRegistrationRequest,
                  currentOperationCallback := Some callback, inputQueue := []\<rparr>))"
    by (simp add: step_with_def exec_Run exec_Transition exec_ProcessQueue exec_Handle
        exec_called exec_plain body_defs logged_as_preceded preceded_preceded
        del: exec.simps)
next
  assume "fsm_state m = EndingSession \<and> inputQueue m = []"
  then show "run m [Call_register request requestBody callback,
             Done_endSession err body result callback' disconnectErr]
        = (m\<lparr>targetReplayState := SendingRegistrationRequest,
             fsm_state := SendingRegistrationRequest,
             currentOperationCallback := Some callback, inputQueue := []\<rparr>,
           [CallCallback callback' (or_else err disconnectErr) body result,
            Transport_registrationRequest request requestBody callback],
           None)"
    by (auto simp: event_defs handler_defs)
qed

theorem register_deferred_then_replayed_witness:
  "step_with [] (init\<lparr>fsm_state := EndingSession\<rparr>) (Call_register 1 2 3)
     = (init\<lparr>fsm_state := EndingSession, inputQueue := [Register 1 2 3]\<rparr>, [], None) \<and>
   exec [Handle (Register 1 2 3)] [] init
     = (init\<lparr>targetReplayState := SendingRegistrationRequest,
          fsm_state := SendingRegistrationRequest, currentOperationCallback := Some 3\<rparr>,
        [Transport_registrationRequest 1 2 3], None) \<and>
   exec [Handle (Register 5 6 7)] []
       (init\<lparr>fsm_state := WaitingToPoll, currentOperationCallback := Some 3\<rparr>)
     = (init\<lparr>fsm_state := WaitingToPoll, currentOperationCallback := Some 3\<rparr>,
        [CallCallback 7 (Some (InvalidOperationError ''another operation is in progress''))
           None None], None) \<and>
   step_with [[Call_register 5 6 7]]
       (init\<lparr>fsm_state := Polling, currentOperationCallback := Some 3\<rparr>)
       (Done_queryOperationStatus 1 3 None
          (Some \<lparr>status = Some ''Assigned'', operationId = None, payload = 0\<rparr>) None 100)
     = (init\<lparr>targetReplayState := SendingRegistrationRequest,
          fsm_state := SendingRegistrationRequest, currentOperationCallback := Some 7\<rparr>,
        [Emit_operationStatus \<lparr>status = Some ''Assigned'', operationId = None, payload = 0\<rparr>,
         CallCallback 3 None
           (Some \<lparr>status = Some ''Assigned'', operationId = None, payload = 0\<rparr>) None,
         Transport_registrationRequest 5 6 7], None) \<and>
   run (init\<lparr>fsm_state := EndingSession\<rparr>)
     [Call_register 1 2 3, Done_endSession None None None 4 None]
     = (init\<lparr>targetReplayState := SendingRegistrationRequest,
          fsm_state := SendingRegistrationRequest, currentOperationCallback := Some 3\<rparr>,
        [CallCallback 4 None None None, Transport_registrationRequest 1 2 3], None)"
  using register_deferred_then_replayed
      [where m = "init\<lparr>fsm_state := EndingSession\<rparr>" and request = 1
        and requestBody = 2 and callback = 3 and rs = "[]" and todo = "[]"
        and err = None and body = None and result = None and callback' = 4
        and disconnectErr = None]
    register_deferred_then_replayed
      [where m = init and request = 1 and requestBody = 2 and callback = 3 and rs = "[]"
        and todo = "[]"]
    register_deferred_then_replayed
      [where m = "init\<lparr>fsm_state := WaitingToPoll, currentOperationCallback := Some 3\<rparr>"
        and request = 5 and requestBody = 6 and callback = 7 and rs = "[]" and todo = "[]"]
    register_deferred_then_replayed
      [where m = "init\<lparr>fsm_state := Polling, currentOperationCallback := Some 3\<rparr>"
        and request = 5 and requestBody = 6 and callback = 7 and callback' = 3
        and request' = 1 and pollingInterval = 100 and result = None
        and b = "\<lparr>status = Some ''Assigned'', operationId = None, payload = 0\<rparr>"
        and st = "''Assigned''"
        and ev = "Done_queryOperationStatus 1 3 None
          (Some \<lparr>status = Some ''Assigned'', operationId = None, payload = 0\<rparr>) None 100"]
  by (simp add: init_def handler_defs toLowerCase_def del: run.simps)

end
